theory Spec2Isabelle
  imports Complex_Main "HOL-Library.Word"
begin

section \<open>The fluxio C API examples: client.c and upload.c\<close>

text \<open>
  Both programs drive the fluxio engine through its C interface: they supply the read and
  write callbacks of the connection (\<^verbatim>\<open>read_cb\<close>, \<^verbatim>\<open>write_cb\<close>), run the executor
  in a loop that first polls until no task is ready and then waits in \<^verbatim>\<open>select\<close>, and
  switch on the tag stored in each completed task. upload.c adds the producer of the
  request body, \<^verbatim>\<open>poll_req_upload\<close>.

  The engine and the operating system are not part of the programs. What they return is
  an input of the model (the results of \<^verbatim>\<open>read\<close>, \<^verbatim>\<open>write\<close>, \<^verbatim>\<open>select\<close>, the tasks
  that \<^verbatim>\<open>fluxio_executor_poll\<close> hands back), and the calls the programs make into them
  (those that create, release, push, poll, wake, wait or print) are written to a trace, in
  the order of the source.
\<close>

subsection \<open>Data\<close>

text \<open>
  \<^verbatim>\<open>size_t\<close> and \<^verbatim>\<open>ssize_t\<close> are 64 bits wide (LP64); a \<^verbatim>\<open>ssize_t\<close> is read in
  two's complement. A \<^verbatim>\<open>fluxio_waker *\<close> is the address of the handle, \<^verbatim>\<open>NULL\<close> is
  \<open>None\<close>. Byte strings are \<open>string\<close>: a HOL \<open>char\<close> is one byte.
\<close>

type_synonym size_t = "64 word"
type_synonym ssize_t = "64 word"
type_synonym waker = nat

record conn_data =
  fd :: int
  read_waker :: "waker option"
  write_waker :: "waker option"

text \<open>The two directions of a connection, one waker slot each.\<close>

datatype dir = Rd | Wr

fun slot :: "dir \<Rightarrow> conn_data \<Rightarrow> waker option" where
  "slot Rd conn = read_waker conn"
| "slot Wr conn = write_waker conn"

text \<open>
  The constants of \<^verbatim>\<open>fluxio.h\<close> that the callbacks return as a \<^verbatim>\<open>size_t\<close>. The header
  is not among the sources, so their values are parameters.
\<close>

record fluxio_h =
  FLUXIO_IO_PENDING :: size_t
  FLUXIO_IO_ERROR :: size_t

text \<open>\<^verbatim>\<open>EAGAIN\<close> of \<^verbatim>\<open>errno.h\<close>, with its Linux value; no proof below looks at the number.\<close>

definition EAGAIN :: int where
  "EAGAIN = 11"

datatype fluxio_context = Context (context_handle: waker)

text \<open>
  Modelled from the spec: \<^verbatim>\<open>fluxio_context_waker\<close> is the engine's (declared in
  \<^verbatim>\<open>fluxio.h\<close>); it obtains "a waker bound to the current poll context". The poll
  context of the model carries the handle that the call returns.
\<close>

definition fluxio_context_waker :: "fluxio_context \<Rightarrow> waker" where
  "fluxio_context_waker ctx = context_handle ctx"

subsection \<open>The trace\<close>

datatype example_id =
    EXAMPLE_NOT_SET
  | EXAMPLE_HANDSHAKE
  | EXAMPLE_SEND
  | EXAMPLE_RESP_BODY

datatype fluxio_task_return_type =
    FLUXIO_TASK_EMPTY
  | FLUXIO_TASK_ERROR
  | FLUXIO_TASK_CLIENTCONN
  | FLUXIO_TASK_RESPONSE
  | FLUXIO_TASK_BUF

record fluxio_error =
  error_code :: int
  error_text :: string

record fluxio_response =
  status :: "16 word"
  reason_phrase :: string
  headers :: "(string \<times> string) list"
  body :: nat

text \<open>
  What a finished task holds. \<^verbatim>\<open>fluxio_task_type\<close> names the kind,
  \<^verbatim>\<open>fluxio_task_value\<close> hands out the pointer; the engine keeps the two consistent, so
  the model has one value for both, and a test of the source on the type of a task is a
  case of its payload.
\<close>

datatype task_output =
    OutEmpty
  | OutError fluxio_error
  | OutClientconn nat
  | OutResponse fluxio_response
  | OutBuf string

record fluxio_task =
  task_addr :: nat
  userdata :: example_id
  payload :: task_output

fun fluxio_task_type :: "fluxio_task \<Rightarrow> fluxio_task_return_type" where
  "fluxio_task_type t =
     (case payload t of
        OutEmpty \<Rightarrow> FLUXIO_TASK_EMPTY
      | OutError _ \<Rightarrow> FLUXIO_TASK_ERROR
      | OutClientconn _ \<Rightarrow> FLUXIO_TASK_CLIENTCONN
      | OutResponse _ \<Rightarrow> FLUXIO_TASK_RESPONSE
      | OutBuf _ \<Rightarrow> FLUXIO_TASK_BUF)"

text \<open>An argument of a logged call: a number, a byte string or a pointer.\<close>

datatype parg = PInt int | PStr string | PPtr "nat option"

text \<open>
  One event per call that leaves the program. \<open>WakerFree d w\<close>, \<open>ContextWaker d w\<close> and
  \<open>WakerWake d w\<close> are \<^verbatim>\<open>fluxio_waker_free\<close>, \<^verbatim>\<open>fluxio_context_waker\<close> and
  \<^verbatim>\<open>fluxio_waker_wake\<close> on the slot of direction \<open>d\<close>; \<open>ExecutorPoll\<close> carries what
  \<^verbatim>\<open>fluxio_executor_poll\<close> returned, \<open>ExecutorPush\<close> the tag of the pushed task,
  \<open>Select r w\<close> whether the bit of the descriptor was set in the read and in the write
  set that were handed to \<^verbatim>\<open>select\<close>; \<open>Stdout_write b r\<close> is \<^verbatim>\<open>write(1, ...)\<close> of the
  bytes \<open>b\<close>, which returned \<open>r\<close>. \<open>Call\<close> is any other call of the engine or of libc, by
  its name, with the arguments that are data.
\<close>

datatype event =
    Sys_read int
  | Sys_write int
  | WakerFree dir waker
  | ContextWaker dir waker
  | WakerWake dir "waker option"
  | ExecutorPoll "fluxio_task option"
  | ExecutorPush example_id
  | TaskFree nat
  | ErrorFree fluxio_error
  | Select bool bool
  | Stdout_write string int
  | Printf string "parg list"
  | Call string "parg list"

subsection \<open>The I/O adapter: \<^verbatim>\<open>read_cb\<close> and \<^verbatim>\<open>write_cb\<close>\<close>

text \<open>
  \<open>ret\<close> and \<open>errno\<close> are what \<^verbatim>\<open>read(conn->fd, buf, buf_len)\<close> gave. The result is the
  returned \<^verbatim>\<open>size_t\<close>, the connection afterwards and the calls made.
\<close>

definition read_cb ::
  "fluxio_h \<Rightarrow> conn_data \<Rightarrow> fluxio_context \<Rightarrow> ssize_t \<Rightarrow> int \<Rightarrow> size_t \<times> conn_data \<times> event list" where
  "read_cb h conn ctx ret errno =
     (if 0 \<le>s ret then (ret, conn, [Sys_read (fd conn)])
      else if errno \<noteq> EAGAIN then (FLUXIO_IO_ERROR h, conn, [Sys_read (fd conn)])
      else
        (FLUXIO_IO_PENDING h,
         conn\<lparr>read_waker := Some (fluxio_context_waker ctx)\<rparr>,
         [Sys_read (fd conn)]
           @ (case read_waker conn of None \<Rightarrow> [] | Some old \<Rightarrow> [WakerFree Rd old])
           @ [ContextWaker Rd (fluxio_context_waker ctx)]))"

definition write_cb ::
  "fluxio_h \<Rightarrow> conn_data \<Rightarrow> fluxio_context \<Rightarrow> ssize_t \<Rightarrow> int \<Rightarrow> size_t \<times> conn_data \<times> event list" where
  "write_cb h conn ctx ret errno =
     (if 0 \<le>s ret then (ret, conn, [Sys_write (fd conn)])
      else if errno \<noteq> EAGAIN then (FLUXIO_IO_ERROR h, conn, [Sys_write (fd conn)])
      else
        (FLUXIO_IO_PENDING h,
         conn\<lparr>write_waker := Some (fluxio_context_waker ctx)\<rparr>,
         [Sys_write (fd conn)]
           @ (case write_waker conn of None \<Rightarrow> [] | Some old \<Rightarrow> [WakerFree Wr old])
           @ [ContextWaker Wr (fluxio_context_waker ctx)]))"

text \<open>
  The engine calls the two callbacks while it polls a task. One call is the direction, the
  poll context, and what the transfer returned. The other callbacks that the engine may
  call during a poll (\<^verbatim>\<open>print_each_chunk\<close>, \<^verbatim>\<open>print_informational\<close>,
  \<^verbatim>\<open>poll_req_upload\<close>) touch neither the connection nor the loop and are left out of
  the trace of a run; \<^verbatim>\<open>poll_req_upload\<close> is modelled on its own below. The first two
  write to standard output and, like the \<^verbatim>\<open>switch\<close> of upload.c, discard what
  \<^verbatim>\<open>write\<close> returns.
\<close>

datatype cb_call = CbCall dir fluxio_context ssize_t int

fun run_callback :: "fluxio_h \<Rightarrow> conn_data \<Rightarrow> cb_call \<Rightarrow> conn_data \<times> event list" where
  "run_callback h conn (CbCall Rd ctx ret errno) = snd (read_cb h conn ctx ret errno)"
| "run_callback h conn (CbCall Wr ctx ret errno) = snd (write_cb h conn ctx ret errno)"

fun run_callbacks :: "fluxio_h \<Rightarrow> conn_data \<Rightarrow> cb_call list \<Rightarrow> conn_data \<times> event list" where
  "run_callbacks h conn [] = (conn, [])"
| "run_callbacks h conn (c # cs) =
     (let (conn1, e1) = run_callback h conn c;
          (conn2, e2) = run_callbacks h conn1 cs
      in (conn2, e1 @ e2))"

subsection \<open>The ledger of live wakers\<close>

text \<open>
  A waker is live from the \<^verbatim>\<open>fluxio_context_waker\<close> that made it to the
  \<^verbatim>\<open>fluxio_waker_free\<close> or \<^verbatim>\<open>fluxio_waker_wake\<close> that consumes it (the spec: to fire
  "is a one-shot operation", after which the holder "must treat" the handle "as
  consumed"). \<open>ledger d held tr\<close> is the list of live wakers of direction \<open>d\<close> after the
  trace \<open>tr\<close>, when \<open>held\<close> were live before it. It is a list, so that a second waker of
  a direction would be counted and not merged with the first.
\<close>

fun ledger_step :: "dir \<Rightarrow> waker list \<Rightarrow> event \<Rightarrow> waker list" where
  "ledger_step d held (ContextWaker d' w) = (if d' = d then w # held else held)"
| "ledger_step d held (WakerFree d' w) = (if d' = d then remove1 w held else held)"
| "ledger_step d held (WakerWake d' (Some w)) = (if d' = d then remove1 w held else held)"
| "ledger_step d held _ = held"

definition ledger :: "dir \<Rightarrow> waker list \<Rightarrow> event list \<Rightarrow> waker list" where
  "ledger d held tr = foldl (ledger_step d) held tr"

definition slot_list :: "dir \<Rightarrow> conn_data \<Rightarrow> waker list" where
  "slot_list d conn = (case slot d conn of None \<Rightarrow> [] | Some w \<Rightarrow> [w])"


subsection \<open>\<^verbatim>\<open>free_conn_data\<close> and \<^verbatim>\<open>connect_to\<close>\<close>

definition free_conn_data :: "conn_data \<Rightarrow> event list" where
  "free_conn_data conn =
     (case read_waker conn of None \<Rightarrow> [] | Some w \<Rightarrow> [WakerFree Rd w])
       @ (case write_waker conn of None \<Rightarrow> [] | Some w \<Rightarrow> [WakerFree Wr w])
       @ [Call ''free'' [PStr ''conn'']]"

text \<open>
  One entry of the list that \<^verbatim>\<open>getaddrinfo\<close> returned: what \<^verbatim>\<open>socket\<close> and
  \<^verbatim>\<open>connect\<close> give for it.
\<close>

record addr_try =
  socket_ret :: int
  connect_ret :: int

text \<open>The \<^verbatim>\<open>for\<close> loop of \<^verbatim>\<open>connect_to\<close>; \<open>None\<close> when it ends with \<^verbatim>\<open>rp == NULL\<close>.\<close>

fun try_addrs :: "addr_try list \<Rightarrow> int option \<times> event list" where
  "try_addrs [] = (None, [])"
| "try_addrs (rp # rest) =
     (if socket_ret rp = - 1 then
        (let (r, e) = try_addrs rest in (r, Call ''socket'' [] # e))
      else if connect_ret rp \<noteq> - 1 then
        (Some (socket_ret rp), [Call ''socket'' [], Call ''connect'' [PInt (socket_ret rp)]])
      else
        (let (r, e) = try_addrs rest
         in (r, [Call ''socket'' [], Call ''connect'' [PInt (socket_ret rp)],
                 Call ''close'' [PInt (socket_ret rp)]] @ e)))"

definition connect_to :: "addr_try list option \<Rightarrow> string \<Rightarrow> string \<Rightarrow> int \<times> event list" where
  "connect_to gai host port =
     (case gai of
        None \<Rightarrow>
          (- 1, [Call ''getaddrinfo'' [PStr host, PStr port],
                 Printf ''dns failed for %s\<newline>'' [PStr host]])
      | Some result \<Rightarrow>
          (case try_addrs result of
             (None, e) \<Rightarrow>
               (- 1, Call ''getaddrinfo'' [PStr host, PStr port] # e
                      @ [Call ''freeaddrinfo'' [], Printf ''connect failed for %s\<newline>'' [PStr host]])
           | (Some sfd, e) \<Rightarrow>
               (sfd, Call ''getaddrinfo'' [PStr host, PStr port] # e @ [Call ''freeaddrinfo'' []])))"

subsection \<open>What the environment gives to a run\<close>

text \<open>
  One \<^verbatim>\<open>fluxio_executor_poll\<close>: the callbacks the engine makes while it polls, and the
  task it returns (\<open>None\<close> is \<^verbatim>\<open>NULL\<close>).
\<close>

record poll_result =
  callbacks :: "cb_call list"
  returned :: "fluxio_task option"

text \<open>One \<^verbatim>\<open>select\<close>: its return value and what the descriptor is ready for.\<close>

record select_result =
  sel_ret :: int
  read_ready :: bool
  write_ready :: bool

text \<open>
  What a run gets from outside. \<open>fds_read_init\<close> and \<open>fds_write_init\<close> are what the memory
  of the two descriptor sets holds, at the bit of the connection's descriptor, when
  \<^verbatim>\<open>main\<close> declares them (it does not initialise them). \<open>stdout_closed\<close> tells whether
  a write to descriptor 1 fails.
\<close>

record world =
  hdr :: fluxio_h
  argv :: "string list"
  open_ret :: int
  open_strerror :: string
  getaddrinfo_result :: "addr_try list option"
  fcntl_ret :: int
  fluxio_version :: string
  set_method_ret :: int
  set_uri_ret :: int
  fds_read_init :: bool
  fds_write_init :: bool
  stdout_closed :: bool
  polls :: "poll_result list"
  selects :: "select_result list"

text \<open>\<^verbatim>\<open>argc > n ? argv[n] : dflt\<close>.\<close>

definition arg :: "world \<Rightarrow> nat \<Rightarrow> string \<Rightarrow> string" where
  "arg w n dflt = (if n < length (argv w) then argv w ! n else dflt)"

text \<open>
  Modelled from the spec: \<^verbatim>\<open>select\<close> is the readiness source, "given a set of
  descriptors of interest, blocks until at least one becomes ready, reporting which
  directions (read/write) fired". It leaves in each set the descriptors of that set that
  are ready; when it fails it leaves the sets as they were.
\<close>

definition select :: "bool \<Rightarrow> bool \<Rightarrow> select_result \<Rightarrow> int \<times> bool \<times> bool" where
  "select rd wr s =
     (if sel_ret s < 0 then (sel_ret s, rd, wr)
      else (sel_ret s, rd \<and> read_ready s, wr \<and> write_ready s))"

text \<open>
  An \<^verbatim>\<open>fd_set\<close> has one bit for each descriptor below \<^verbatim>\<open>FD_SETSIZE\<close>, 1024 in
  \<^verbatim>\<open>sys/select.h\<close>. The programs set and test one bit of each set, the bit of
  \<^verbatim>\<open>conn->fd\<close>, and they pass \<^verbatim>\<open>conn->fd + 1\<close> to \<^verbatim>\<open>select\<close>, which looks at the bits
  up to that one. A set is modelled by that bit. \<^verbatim>\<open>FD_SET\<close> and \<^verbatim>\<open>FD_ISSET\<close> compute the
  place of the bit from the descriptor and do not compare it with \<^verbatim>\<open>FD_SETSIZE\<close>, and
  neither do the programs: the bit of a descriptor from \<^verbatim>\<open>FD_SETSIZE\<close> on lies in the
  memory behind the set. \<^verbatim>\<open>FD_ZERO\<close> clears the \<^verbatim>\<open>FD_SETSIZE\<close> bits of the set and
  nothing behind them, so it clears the bit of the descriptor \<open>x\<close> only when \<open>x\<close> is in
  range. For a descriptor out of range C leaves the behaviour open; the model follows the
  macros as they are written, without the check that a fortified build adds, and takes
  the places of the bit behind the sets to be memory that nothing else writes.
\<close>

definition FD_SETSIZE :: int where
  "FD_SETSIZE = 1024"

definition FD_ZERO :: "int \<Rightarrow> bool \<Rightarrow> bool" where
  "FD_ZERO x b = (if 0 \<le> x \<and> x < FD_SETSIZE then False else b)"

definition FD_SET :: "int \<Rightarrow> bool \<Rightarrow> bool" where
  "FD_SET x b = True"

definition FD_ISSET :: "int \<Rightarrow> bool \<Rightarrow> bool" where
  "FD_ISSET x b = b"

text \<open>
  \<^verbatim>\<open>write(1, buf, len)\<close>: the number of bytes, or \<open>-1\<close> when standard output cannot be
  written.
\<close>

definition write_stdout :: "world \<Rightarrow> string \<Rightarrow> int" where
  "write_stdout w b = (if stdout_closed w then - 1 else int (length b))"


subsection \<open>The continuation dispatcher: the \<^verbatim>\<open>switch\<close> of \<^verbatim>\<open>main\<close>\<close>

text \<open>
  The variables of \<^verbatim>\<open>main\<close> that live across iterations: the connection, in upload.c
  the body of the response, and the two descriptor sets (\<^verbatim>\<open>fds_excep\<close> is cleared and
  passed to \<^verbatim>\<open>select\<close>, and never read).
\<close>

record loop_state =
  conn :: conn_data
  resp_body :: "nat option"
  fds_read :: bool
  fds_write :: bool

text \<open>
  How one pass through the \<^verbatim>\<open>switch\<close> ends: \<^verbatim>\<open>break\<close> with the new state, a
  \<^verbatim>\<open>return\<close> of \<^verbatim>\<open>main\<close>, or an \<^verbatim>\<open>assert\<close> that fails.
\<close>

datatype ctl = Continue loop_state | Return int | AssertionFailed

text \<open>
  Modelled from the spec: \<^verbatim>\<open>fluxio_error_print\<close> is the engine's; it gives the
  "human-readable description (bounded-length)" of an error, cut at the size of the buffer.
\<close>

definition fluxio_error_print :: "fluxio_error \<Rightarrow> nat \<Rightarrow> string" where
  "fluxio_error_print err n = take n (error_text err)"

text \<open>The label \<^verbatim>\<open>fail\<close> of client.c, which returns 1.\<close>

definition fail :: "fluxio_error option \<Rightarrow> event list" where
  "fail err =
     (case err of
        None \<Rightarrow> []
      | Some e \<Rightarrow>
          [Printf ''error code: %d\<newline>'' [PInt (error_code e)],
           Printf ''details: %.*s\<newline>''
             [PInt (int (length (fluxio_error_print e 256))), PStr (fluxio_error_print e 256)],
           ErrorFree e])"

definition print_each_header :: "string \<times> string \<Rightarrow> event list" where
  "print_each_header nv =
     [Printf ''%.*s: %.*s\<newline>''
        [PInt (int (length (fst nv))), PStr (fst nv), PInt (int (length (snd nv))), PStr (snd nv)]]"

text \<open>
  Modelled from the spec: \<^verbatim>\<open>fluxio_headers_foreach\<close> is the engine's; it calls the
  function on every header of the collection, in order (\<^verbatim>\<open>print_each_header\<close> always
  returns \<^verbatim>\<open>FLUXIO_ITER_CONTINUE\<close>).
\<close>

definition fluxio_headers_foreach :: "(string \<times> string) list \<Rightarrow> event list" where
  "fluxio_headers_foreach hs = concat (map print_each_header hs)"

definition client_dispatch :: "world \<Rightarrow> loop_state \<Rightarrow> fluxio_task \<Rightarrow> ctl \<times> event list" where
  "client_dispatch w st task =
     (case userdata task of
        EXAMPLE_HANDSHAKE \<Rightarrow>
          (case payload task of
             OutError e \<Rightarrow> (Return 1, Printf ''handshake error!\<newline>'' [] # fail (Some e))
           | OutClientconn client \<Rightarrow>
               (let e1 = [Printf ''preparing http request ...\<newline>'' [],
                          TaskFree (task_addr task),
                          Call ''fluxio_request_new'' [],
                          Call ''fluxio_request_set_method'' [PStr ''GET'']]
                in if set_method_ret w \<noteq> 0 then
                     (Return 1, e1 @ [Printf ''error setting method\<newline>'' []])
                   else if set_uri_ret w \<noteq> 0 then
                     (Return 1, e1 @ [Call ''fluxio_request_set_uri'' [PStr (arg w 3 ''/'')],
                                      Printf ''error setting uri\<newline>'' []])
                   else
                     (Continue st,
                      e1 @ [Call ''fluxio_request_set_uri'' [PStr (arg w 3 ''/'')],
                            Call ''fluxio_headers_set'' [PStr ''Host'', PStr (arg w 1 ''httpbin.org'')],
                            Call ''fluxio_clientconn_send'' [],
                            Printf ''sending ...\<newline>'' [],
                            ExecutorPush EXAMPLE_SEND,
                            Call ''fluxio_clientconn_free'' [PPtr (Some client)]]))
           | _ \<Rightarrow> (AssertionFailed, []))
      | EXAMPLE_SEND \<Rightarrow>
          (case payload task of
             OutError e \<Rightarrow> (Return 1, Printf ''send error!\<newline>'' [] # fail (Some e))
           | OutResponse resp \<Rightarrow>
               (Continue st,
                [TaskFree (task_addr task),
                 Printf ''\<newline>Response Status: %d %.*s\<newline>''
                   [PInt (uint (status resp)), PInt (int (length (reason_phrase resp))),
                    PStr (reason_phrase resp)]]
                  @ fluxio_headers_foreach (headers resp)
                  @ [Printf ''\<newline>'' [],
                     Call ''fluxio_body_foreach'' [PPtr (Some (body resp))],
                     ExecutorPush EXAMPLE_RESP_BODY,
                     Call ''fluxio_response_free'' []])
           | _ \<Rightarrow> (AssertionFailed, []))
      | EXAMPLE_RESP_BODY \<Rightarrow>
          (case payload task of
             OutError e \<Rightarrow> (Return 1, Printf ''body error!\<newline>'' [] # fail (Some e))
           | OutEmpty \<Rightarrow>
               (Return 0,
                [Printf ''\<newline> -- Done! -- \<newline>'' [],
                 TaskFree (task_addr task),
                 Call ''fluxio_executor_free'' []]
                  @ free_conn_data (conn st))
           | _ \<Rightarrow> (AssertionFailed, []))
      | EXAMPLE_NOT_SET \<Rightarrow> (Continue st, [TaskFree (task_addr task)]))"

definition upload_dispatch :: "world \<Rightarrow> loop_state \<Rightarrow> fluxio_task \<Rightarrow> ctl \<times> event list" where
  "upload_dispatch w st task =
     (case userdata task of
        EXAMPLE_HANDSHAKE \<Rightarrow>
          (case payload task of
             OutError e \<Rightarrow> (Return 1, [Printf ''handshake error!\<newline>'' []])
           | OutClientconn client \<Rightarrow>
               (let e1 = [Printf ''preparing http request ...\<newline>'' [],
                          TaskFree (task_addr task),
                          Call ''fluxio_request_new'' [],
                          Call ''fluxio_request_set_method'' [PStr ''POST'']]
                in if set_method_ret w \<noteq> 0 then
                     (Return 1, e1 @ [Printf ''error setting method\<newline>'' []])
                   else if set_uri_ret w \<noteq> 0 then
                     (Return 1, e1 @ [Call ''fluxio_request_set_uri'' [PStr (arg w 4 ''/post'')],
                                      Printf ''error setting uri\<newline>'' []])
                   else
                     (Continue st,
                      e1 @ [Call ''fluxio_request_set_uri'' [PStr (arg w 4 ''/post'')],
                            Call ''fluxio_headers_set'' [PStr ''host'', PStr (arg w 2 ''httpbin.org'')],
                            Call ''fluxio_headers_set'' [PStr ''expect'', PStr ''100-continue''],
                            Printf ''    with expect-continue ...\<newline>'' [],
                            Call ''fluxio_request_on_informational'' [],
                            Call ''fluxio_body_new'' [],
                            Call ''fluxio_body_set_userdata'' [],
                            Call ''fluxio_body_set_data_func'' [],
                            Call ''fluxio_request_set_body'' [],
                            Call ''fluxio_clientconn_send'' [],
                            Printf ''sending ...\<newline>'' [],
                            ExecutorPush EXAMPLE_SEND,
                            Call ''fluxio_clientconn_free'' [PPtr (Some client)]]))
           | _ \<Rightarrow> (AssertionFailed, []))
      | EXAMPLE_SEND \<Rightarrow>
          (case payload task of
             OutError e \<Rightarrow> (Return 1, [Printf ''send error!\<newline>'' []])
           | OutResponse resp \<Rightarrow>
               (Continue (st\<lparr>resp_body := Some (body resp)\<rparr>),
                [TaskFree (task_addr task),
                 Printf ''\<newline>Response Status: %d\<newline>'' [PInt (uint (status resp))]]
                  @ fluxio_headers_foreach (headers resp)
                  @ [Printf ''\<newline>'' [],
                     Call ''fluxio_body_data'' [PPtr (Some (body resp))],
                     ExecutorPush EXAMPLE_RESP_BODY,
                     Call ''fluxio_response_free'' []])
           | _ \<Rightarrow> (AssertionFailed, []))
      | EXAMPLE_RESP_BODY \<Rightarrow>
          (case payload task of
             OutError e \<Rightarrow> (Return 1, [Printf ''body error!\<newline>'' []])
           | OutBuf chunk \<Rightarrow>
               (Continue st,
                [Stdout_write chunk (write_stdout w chunk),
                 Call ''fluxio_buf_free'' [],
                 TaskFree (task_addr task),
                 Call ''fluxio_body_data'' [PPtr (resp_body st)],
                 ExecutorPush EXAMPLE_RESP_BODY])
           | OutEmpty \<Rightarrow>
               (Return 0,
                [TaskFree (task_addr task),
                 Call ''fluxio_body_free'' [PPtr (resp_body st)],
                 Printf ''\<newline> -- Done! -- \<newline>'' [],
                 Call ''fluxio_executor_free'' []]
                  @ free_conn_data (conn st)
                  @ [Call ''free'' [PStr ''upload.buf'']])
           | _ \<Rightarrow> (AssertionFailed, []))
      | EXAMPLE_NOT_SET \<Rightarrow> (Continue st, [TaskFree (task_addr task)]))"

datatype prog = Client | Upload

fun dispatch :: "prog \<Rightarrow> world \<Rightarrow> loop_state \<Rightarrow> fluxio_task \<Rightarrow> ctl \<times> event list" where
  "dispatch Client w st task = client_dispatch w st task"
| "dispatch Upload w st task = upload_dispatch w st task"

subsection \<open>The executor loop\<close>

text \<open>
  How a run ends: \<^verbatim>\<open>main\<close> returns, an \<^verbatim>\<open>assert\<close> aborts it, or it is still running
  (or blocked in \<^verbatim>\<open>select\<close>) when what the environment gave is used up.
\<close>

datatype outcome = Exit int | Aborted | Running

datatype drain_result = Drained loop_state "poll_result list" | Stopped outcome

text \<open>
  The inner \<^verbatim>\<open>while (1)\<close>: poll, leave the loop on \<^verbatim>\<open>NULL\<close>, otherwise switch on the
  tag of the task. The callbacks of a poll run inside \<^verbatim>\<open>fluxio_executor_poll\<close>, before
  it returns.
\<close>

fun drain :: "prog \<Rightarrow> world \<Rightarrow> poll_result list \<Rightarrow> loop_state \<Rightarrow> drain_result \<times> event list" where
  "drain prog w [] st = (Stopped Running, [])"
| "drain prog w (p # ps) st =
     (let (conn1, e1) = run_callbacks (hdr w) (conn st) (callbacks p);
          st1 = st\<lparr>conn := conn1\<rparr>
      in case returned p of
           None \<Rightarrow> (Drained st1 ps, e1 @ [ExecutorPoll None])
         | Some task \<Rightarrow>
             (case dispatch prog w st1 task of
                (Continue st2, e2) \<Rightarrow>
                  (let (r, e3) = drain prog w ps st2
                   in (r, e1 @ ExecutorPoll (Some task) # e2 @ e3))
              | (Return c, e2) \<Rightarrow> (Stopped (Exit c), e1 @ ExecutorPoll (Some task) # e2)
              | (AssertionFailed, e2) \<Rightarrow> (Stopped Aborted, e1 @ ExecutorPoll (Some task) # e2)))"

text \<open>
  The rest of the body of the outer loop. First the sets are built: the three
  \<^verbatim>\<open>FD_ZERO\<close>, then \<^verbatim>\<open>FD_SET\<close> for each slot that is not \<^verbatim>\<open>NULL\<close>.
\<close>

definition build_sets :: "loop_state \<Rightarrow> bool \<times> bool" where
  "build_sets st =
     (let x = fd (conn st);
          r0 = FD_ZERO x (fds_read st);
          w0 = FD_ZERO x (fds_write st);
          r1 = (if read_waker (conn st) \<noteq> None then FD_SET x r0 else r0);
          w1 = (if write_waker (conn st) \<noteq> None then FD_SET x w0 else w0)
      in (r1, w1))"

text \<open>
  Then \<^verbatim>\<open>select\<close> is called on the sets, and each direction whose bit is set afterwards
  is woken and its slot cleared. The event \<open>Select\<close> carries the sets as they are handed
  to \<^verbatim>\<open>select\<close>. \<open>None\<close> is the \<^verbatim>\<open>return 1\<close> after a failed \<^verbatim>\<open>select\<close>. No callback
  runs in this phase: \<^verbatim>\<open>fluxio_waker_wake\<close> only "schedules the associated suspended
  task for re-poll".
\<close>

definition wait_phase :: "loop_state \<Rightarrow> select_result \<Rightarrow> loop_state option \<times> event list" where
  "wait_phase st s =
     (let c = conn st;
          (r1, w1) = build_sets st;
          (ret, r2, w2) = select r1 w1 s
      in if ret < 0 then (None, [Select r1 w1, Printf ''select() error\<newline>'' []])
         else
           (let (c1, e1) = (if FD_ISSET (fd c) r2
                            then (c\<lparr>read_waker := None\<rparr>, [WakerWake Rd (read_waker c)])
                            else (c, []));
                (c2, e2) = (if FD_ISSET (fd c1) w2
                            then (c1\<lparr>write_waker := None\<rparr>, [WakerWake Wr (write_waker c1)])
                            else (c1, []))
            in (Some (st\<lparr>conn := c2, fds_read := r2, fds_write := w2\<rparr>),
                Select r1 w1 # e1 @ e2)))"

text \<open>
  The call of \<^verbatim>\<open>select\<close> in which a run stays when nothing more is known of the
  environment.
\<close>

definition select_call :: "loop_state \<Rightarrow> event" where
  "select_call st = (let (r1, w1) = build_sets st in Select r1 w1)"

text \<open>The outer \<^verbatim>\<open>while (1)\<close>.\<close>

fun main_loop ::
  "prog \<Rightarrow> world \<Rightarrow> poll_result list \<Rightarrow> select_result list \<Rightarrow> loop_state \<Rightarrow> outcome \<times> event list" where
  "main_loop prog w ps [] st =
     (case drain prog w ps st of
        (Stopped out, tr) \<Rightarrow> (out, tr)
      | (Drained st1 ps1, tr) \<Rightarrow> (Running, tr @ [select_call st1]))"
| "main_loop prog w ps (s # ss) st =
     (case drain prog w ps st of
        (Stopped out, tr) \<Rightarrow> (out, tr)
      | (Drained st1 ps1, tr) \<Rightarrow>
          (case wait_phase st1 s of
             (None, e) \<Rightarrow> (Exit 1, tr @ e)
           | (Some st2, e) \<Rightarrow>
               (let (out, tr2) = main_loop prog w ps1 ss st2
                in (out, tr @ e @ tr2))))"


subsection \<open>\<^verbatim>\<open>main\<close> of client.c and of upload.c\<close>

text \<open>From the \<^verbatim>\<open>malloc\<close> of the connection to the push of the handshake task.\<close>

definition hookup :: "prog \<Rightarrow> world \<Rightarrow> event list" where
  "hookup prog w =
     [Call ''malloc'' [PStr ''conn''],
      Call ''fluxio_io_new'' [],
      Call ''fluxio_io_set_userdata'' [],
      Call ''fluxio_io_set_read'' [],
      Call ''fluxio_io_set_write'' [],
      Printf ''http handshake (fluxio v%s) ...\<newline>'' [PStr (fluxio_version w)],
      Call ''fluxio_executor_new'' [],
      Call ''fluxio_clientconn_options_new'' [],
      Call ''fluxio_clientconn_options_exec'' []]
       @ (case prog of Client \<Rightarrow> [] | Upload \<Rightarrow> [Call ''fluxio_clientconn_options_headers_raw'' [PInt 1]])
       @ [Call ''fluxio_clientconn_handshake'' [],
          ExecutorPush EXAMPLE_HANDSHAKE]"

definition client_main :: "world \<Rightarrow> outcome \<times> event list" where
  "client_main w =
     (let host = arg w 1 ''httpbin.org'';
          port = arg w 2 ''80'';
          path = arg w 3 ''/'';
          e0 = [Printf ''connecting to port %s on %s...\<newline>'' [PStr port, PStr host]];
          (fd, e1) = connect_to (getaddrinfo_result w) host port
      in if fd < 0 then (Exit 1, e0 @ e1)
         else
           (let e2 = [Printf ''connected to %s, now get %s\<newline>'' [PStr host, PStr path],
                      Call ''fcntl'' [PInt fd]]
            in if fcntl_ret w \<noteq> 0 then
                 (Exit 1, e0 @ e1 @ e2 @ [Printf ''failed to set socket to non-blocking\<newline>'' []])
               else
                 (let c = \<lparr>fd = fd, read_waker = None, write_waker = None\<rparr>;
                      (out, tr) = main_loop Client w (polls w) (selects w)
                                    \<lparr>conn = c, resp_body = None,
                                     fds_read = fds_read_init w, fds_write = fds_write_init w\<rparr>
                  in (out, e0 @ e1 @ e2 @ hookup Client w @ tr))))"

definition upload_main :: "world \<Rightarrow> outcome \<times> event list" where
  "upload_main w =
     (if \<not> 1 < length (argv w) then
        (Exit 1, [Printf ''Pass a file path as the first argument.\<newline>'' []])
      else
        (let file = argv w ! 1;
             host = arg w 2 ''httpbin.org'';
             port = arg w 3 ''80'';
             path = arg w 4 ''/post'';
             e0 = [Call ''open'' [PStr file]]
         in if open_ret w < 0 then
              (Exit 1, e0 @ [Printf ''error opening file to upload: %s\<newline>'' [PStr (open_strerror w)]])
            else
              (let e1 = [Printf ''connecting to port %s on %s...\<newline>'' [PStr port, PStr host]];
                   (fd, e2) = connect_to (getaddrinfo_result w) host port
               in if fd < 0 then (Exit 1, e0 @ e1 @ e2)
                  else
                    (let e3 = [Printf ''connected to %s, now upload to %s\<newline>'' [PStr host, PStr path],
                               Call ''fcntl'' [PInt fd]]
                     in if fcntl_ret w \<noteq> 0 then
                          (Exit 1, e0 @ e1 @ e2 @ e3
                                     @ [Printf ''failed to set socket to non-blocking\<newline>'' []])
                        else
                          (let c = \<lparr>fd = fd, read_waker = None, write_waker = None\<rparr>;
                               (out, tr) = main_loop Upload w (polls w) (selects w)
                                             \<lparr>conn = c, resp_body = None,
                                              fds_read = fds_read_init w,
                                              fds_write = fds_write_init w\<rparr>
                           in (out, e0 @ e1 @ e2 @ e3 @ [Call ''malloc'' [PStr ''upload.buf'']]
                                      @ hookup Upload w @ tr))))))"

fun main :: "prog \<Rightarrow> world \<Rightarrow> outcome \<times> event list" where
  "main Client w = client_main w"
| "main Upload w = upload_main w"


subsection \<open>The producer of the upload body: \<^verbatim>\<open>poll_req_upload\<close>\<close>

text \<open>
  \<^verbatim>\<open>struct upload_body\<close>; its descriptor is \<open>file_fd\<close> here, since \<open>fd\<close> is the field of
  the connection. \<^verbatim>\<open>main\<close> sets \<open>len\<close> to 8192 and \<open>buf\<close> to a block of that size; the
  counts of this part are far below the range of \<^verbatim>\<open>ssize_t\<close> and are plain numbers.
\<close>

record upload_body =
  file_fd :: int
  buf :: string
  len :: nat

text \<open>
  The two results of \<^verbatim>\<open>fluxio.h\<close> that the producer returns, kept symbolic: the header
  is not among the sources.
\<close>

datatype fluxio_poll = FLUXIO_POLL_READY | FLUXIO_POLL_ERROR

text \<open>
  What the descriptor has for one \<^verbatim>\<open>read\<close>: the bytes it can deliver now (none at the end
  of the input), or a failure with its \<^verbatim>\<open>errno\<close>.
\<close>

datatype read_outcome = ReadBytes string | ReadFails int

text \<open>
  Modelled from the spec: \<^verbatim>\<open>read(fd, buf, n)\<close> is the system's, "a synchronous read from
  the source into a reusable scratch buffer". It stores at most \<open>n\<close> of the bytes at the
  start of the buffer and returns their number, or returns \<open>-1\<close> and sets \<^verbatim>\<open>errno\<close>. The
  result is the return value, the buffer afterwards and \<^verbatim>\<open>errno\<close>.
\<close>

definition sys_read :: "string \<Rightarrow> nat \<Rightarrow> read_outcome \<Rightarrow> int \<times> string \<times> int" where
  "sys_read b n r =
     (case r of
        ReadBytes avail \<Rightarrow>
          (int (length (take n avail)), take n avail @ drop (length (take n avail)) b, 0)
      | ReadFails e \<Rightarrow> (- 1, b, e))"

text \<open>
  Modelled from the spec: \<^verbatim>\<open>fluxio_buf_copy\<close> is the engine's; it copies "those bytes
  into a new chunk object owned by the engine".
\<close>

definition fluxio_buf_copy :: "string \<Rightarrow> nat \<Rightarrow> string" where
  "fluxio_buf_copy b n = take n b"

text \<open>
  \<open>chunk\<close> is what \<^verbatim>\<open>*chunk\<close> holds before the call (\<open>None\<close> is \<^verbatim>\<open>NULL\<close>); the result is
  the returned code, \<^verbatim>\<open>*chunk\<close> afterwards, the upload state and the calls made.
\<close>

definition poll_req_upload ::
  "upload_body \<Rightarrow> string option \<Rightarrow> read_outcome
     \<Rightarrow> fluxio_poll \<times> string option \<times> upload_body \<times> event list" where
  "poll_req_upload upload chunk r =
     (let (res, b, errno) = sys_read (buf upload) (len upload) r;
          upload1 = upload\<lparr>buf := b\<rparr>;
          e = [Sys_read (file_fd upload)]
      in if res > 0 then
           (FLUXIO_POLL_READY, Some (fluxio_buf_copy b (nat res)), upload1,
            e @ [Call ''fluxio_buf_copy'' [PInt res]])
         else if res = 0 then (FLUXIO_POLL_READY, None, upload1, e)
         else
           (FLUXIO_POLL_ERROR, chunk, upload1,
            e @ [Printf ''error reading upload file: %d'' [PInt errno]]))"




subsection \<open>Checking a trace\<close>

text \<open>
  The transfer of a callback would block.
\<close>

fun would_block :: "cb_call \<Rightarrow> bool" where
  "would_block (CbCall d ctx ret errno) = (\<not> 0 \<le>s ret \<and> errno = EAGAIN)"

text \<open>
  Modelled from the spec: when the engine suspends a task is the engine's. "Suspension
  occurs only at the Non-blocking I/O Adapter boundary when a transfer would block - this
  is the sole point where forward progress is deferred to an external readiness
  notification." A poll that returns no task has put off the tasks it polled, so one of
  its transfers would block.
\<close>

definition suspends_at_would_block :: "poll_result list \<Rightarrow> bool" where
  "suspends_at_would_block ps =
     list_all (\<lambda>q. returned q \<noteq> None \<or> list_ex would_block (callbacks q)) ps"

text \<open>
  \<open>run_ok inr sus H prev tr\<close> walks along a trace and checks every event against what is
  live at that moment: \<open>H d\<close> are the live wakers of direction \<open>d\<close> before the trace,
  \<open>prev\<close> the event before it. A waker is made only when none of its direction is live; a
  waker that is freed or woken is the live one; \<^verbatim>\<open>select\<close> is called right after a poll
  that returned no task, with the descriptor in the sets of the directions that have a
  live waker. When the descriptor is below \<^verbatim>\<open>FD_SETSIZE\<close> (\<open>inr\<close>), the descriptor is in
  no other set and \<^verbatim>\<open>NULL\<close> is never woken; when the engine suspends at transfers that
  would block (\<open>sus\<close>), some waker is live at every \<^verbatim>\<open>select\<close>.
\<close>

definition ev_ok :: "bool \<Rightarrow> bool \<Rightarrow> (dir \<Rightarrow> waker list) \<Rightarrow> event option \<Rightarrow> event \<Rightarrow> bool" where
  "ev_ok inr sus H prev e =
     (case e of
        ContextWaker d w \<Rightarrow> H d = []
      | WakerFree d w \<Rightarrow> H d = [w]
      | WakerWake d x \<Rightarrow> (case x of None \<Rightarrow> \<not> inr \<and> H d = [] | Some w \<Rightarrow> H d = [w])
      | Select r w \<Rightarrow>
          prev = Some (ExecutorPoll None)
          \<and> (H Rd \<noteq> [] \<longrightarrow> r) \<and> (H Wr \<noteq> [] \<longrightarrow> w)
          \<and> (inr \<longrightarrow> r = (H Rd \<noteq> []) \<and> w = (H Wr \<noteq> []))
          \<and> (sus \<longrightarrow> H Rd \<noteq> [] \<or> H Wr \<noteq> [])
      | _ \<Rightarrow> True)"

fun run_ok :: "bool \<Rightarrow> bool \<Rightarrow> (dir \<Rightarrow> waker list) \<Rightarrow> event option \<Rightarrow> event list \<Rightarrow> bool" where
  "run_ok inr sus H prev [] = True"
| "run_ok inr sus H prev (e # es) =
     (ev_ok inr sus H prev e \<and> run_ok inr sus (\<lambda>d. ledger_step d (H d) e) (Some e) es)"

definition last_event :: "event option \<Rightarrow> event list \<Rightarrow> event option" where
  "last_event prev tr = (if tr = [] then prev else Some (last tr))"

text \<open>The events that neither touch a waker nor call \<^verbatim>\<open>select\<close>.\<close>

definition neutral :: "event \<Rightarrow> bool" where
  "neutral e =
     (case e of
        ContextWaker d w \<Rightarrow> False
      | WakerFree d w \<Rightarrow> False
      | WakerWake d x \<Rightarrow> False
      | Select r w \<Rightarrow> False
      | _ \<Rightarrow> True)"

definition slots :: "conn_data \<Rightarrow> dir \<Rightarrow> waker list" where
  "slots c d = slot_list d c"

subsection \<open>Reading a trace\<close>

text \<open>
  The events of \<^verbatim>\<open>main\<close> before the loop: prints, calls other than
  \<^verbatim>\<open>fluxio_clientconn_send\<close>, and the push of the handshake task.
\<close>

definition is_setup :: "event \<Rightarrow> bool" where
  "is_setup e =
     (case e of
        Printf f a \<Rightarrow> True
      | Call f a \<Rightarrow> f \<noteq> ''fluxio_clientconn_send''
      | ExecutorPush t \<Rightarrow> t = EXAMPLE_HANDSHAKE
      | _ \<Rightarrow> False)"

text \<open>The variables of the loop when \<^verbatim>\<open>main\<close> enters it, for the descriptor \<open>x\<close>.\<close>

definition initial_state :: "world \<Rightarrow> int \<Rightarrow> loop_state" where
  "initial_state w x =
     \<lparr>conn = \<lparr>fd = x, read_waker = None, write_waker = None\<rparr>, resp_body = None,
      fds_read = fds_read_init w, fds_write = fds_write_init w\<rparr>"

text \<open>\<open>after_each Q tr\<close>: every event of \<open>tr\<close> stands in \<open>Q\<close> to the events after it.\<close>

fun after_each :: "(event \<Rightarrow> event list \<Rightarrow> bool) \<Rightarrow> event list \<Rightarrow> bool" where
  "after_each Q [] = True"
| "after_each Q (e # es) = (Q e es \<and> after_each Q es)"

definition is_poll :: "event \<Rightarrow> bool" where
  "is_poll e = (case e of ExecutorPoll x \<Rightarrow> True | _ \<Rightarrow> False)"

text \<open>
  After the poll that returned a task come the events of the \<^verbatim>\<open>switch\<close> on that task;
  when the \<^verbatim>\<open>switch\<close> returns or aborts, the trace ends there with that outcome.
\<close>

definition dispatched :: "prog \<Rightarrow> world \<Rightarrow> outcome option \<Rightarrow> event \<Rightarrow> event list \<Rightarrow> bool" where
  "dispatched prog w out e rest =
     (case e of
        ExecutorPoll (Some t) \<Rightarrow>
          (\<exists>st rest'. rest = snd (dispatch prog w st t) @ rest'
             \<and> (case fst (dispatch prog w st t) of
                   Continue st' \<Rightarrow> True
                 | Return c \<Rightarrow> rest' = [] \<and> out = Some (Exit c)
                 | AssertionFailed \<Rightarrow> rest' = [] \<and> out = Some Aborted))
      | _ \<Rightarrow> True)"

text \<open>The first line that the programs print for a failed task, by its tag.\<close>

fun phase_message :: "example_id \<Rightarrow> string" where
  "phase_message EXAMPLE_HANDSHAKE = ''handshake error!\<newline>''"
| "phase_message EXAMPLE_SEND = ''send error!\<newline>''"
| "phase_message EXAMPLE_RESP_BODY = ''body error!\<newline>''"
| "phase_message EXAMPLE_NOT_SET = []"


text \<open>The events that build or push a send task.\<close>

definition is_send :: "event \<Rightarrow> bool" where
  "is_send e =
     (case e of
        ExecutorPush t \<Rightarrow> t = EXAMPLE_SEND
      | Call f a \<Rightarrow> f = ''fluxio_clientconn_send''
      | _ \<Rightarrow> False)"

definition handshake_ok :: "fluxio_task \<Rightarrow> bool" where
  "handshake_ok t = (userdata t = EXAMPLE_HANDSHAKE \<and> (\<exists>c. payload t = OutClientconn c))"

subsection \<open>Example runs\<close>

text \<open>
  Concrete inputs on which the theorems below are evaluated. In \<open>base_world\<close> the name
  resolves to one address, the socket is descriptor 4 and every set-up call succeeds; the
  other worlds add what the executor and \<^verbatim>\<open>select\<close> return. \<open>client_setup\<close> and
  \<open>upload_setup\<close> are the events of the two programs before the loop, \<open>client_request\<close>
  and \<open>upload_request\<close> those of the \<^verbatim>\<open>switch\<close> on the finished handshake. In
  \<open>world_high_fd\<close> the descriptors 3 to 1023 are in use when upload.c starts, so that its
  socket is descriptor 1024; in \<open>world_stdout_closed\<close> standard output cannot be written.
\<close>

definition base_world :: world where
  "base_world =
     \<lparr>hdr = \<lparr>FLUXIO_IO_PENDING = 0xFFFFFFFF, FLUXIO_IO_ERROR = 0xFFFFFFFE\<rparr>,
      argv = [''client''],
      open_ret = 3,
      open_strerror = [],
      getaddrinfo_result = Some [\<lparr>socket_ret = 4, connect_ret = 0\<rparr>],
      fcntl_ret = 0,
      fluxio_version = ''1'',
      set_method_ret = 0,
      set_uri_ret = 0,
      fds_read_init = False,
      fds_write_init = False,
      stdout_closed = False,
      polls = [],
      selects = []\<rparr>"

definition client_setup :: "event list" where
  "client_setup =
     [Printf ''connecting to port %s on %s...\<newline>'' [PStr ''80'', PStr ''httpbin.org''],
      Call ''getaddrinfo'' [PStr ''httpbin.org'', PStr ''80''],
      Call ''socket'' [],
      Call ''connect'' [PInt 4],
      Call ''freeaddrinfo'' [],
      Printf ''connected to %s, now get %s\<newline>'' [PStr ''httpbin.org'', PStr ''/''],
      Call ''fcntl'' [PInt 4],
      Call ''malloc'' [PStr ''conn''],
      Call ''fluxio_io_new'' [],
      Call ''fluxio_io_set_userdata'' [],
      Call ''fluxio_io_set_read'' [],
      Call ''fluxio_io_set_write'' [],
      Printf ''http handshake (fluxio v%s) ...\<newline>'' [PStr ''1''],
      Call ''fluxio_executor_new'' [],
      Call ''fluxio_clientconn_options_new'' [],
      Call ''fluxio_clientconn_options_exec'' [],
      Call ''fluxio_clientconn_handshake'' [],
      ExecutorPush EXAMPLE_HANDSHAKE]"

definition upload_setup_at :: "int \<Rightarrow> event list" where
  "upload_setup_at x =
     [Call ''open'' [PStr ''data.bin''],
      Printf ''connecting to port %s on %s...\<newline>'' [PStr ''80'', PStr ''httpbin.org''],
      Call ''getaddrinfo'' [PStr ''httpbin.org'', PStr ''80''],
      Call ''socket'' [],
      Call ''connect'' [PInt x],
      Call ''freeaddrinfo'' [],
      Printf ''connected to %s, now upload to %s\<newline>'' [PStr ''httpbin.org'', PStr ''/post''],
      Call ''fcntl'' [PInt x],
      Call ''malloc'' [PStr ''upload.buf''],
      Call ''malloc'' [PStr ''conn''],
      Call ''fluxio_io_new'' [],
      Call ''fluxio_io_set_userdata'' [],
      Call ''fluxio_io_set_read'' [],
      Call ''fluxio_io_set_write'' [],
      Printf ''http handshake (fluxio v%s) ...\<newline>'' [PStr ''1''],
      Call ''fluxio_executor_new'' [],
      Call ''fluxio_clientconn_options_new'' [],
      Call ''fluxio_clientconn_options_exec'' [],
      Call ''fluxio_clientconn_options_headers_raw'' [PInt 1],
      Call ''fluxio_clientconn_handshake'' [],
      ExecutorPush EXAMPLE_HANDSHAKE]"

definition upload_setup :: "event list" where
  "upload_setup = upload_setup_at 4"

definition upload_request :: "event list" where
  "upload_request =
     [Printf ''preparing http request ...\<newline>'' [],
      TaskFree 1,
      Call ''fluxio_request_new'' [],
      Call ''fluxio_request_set_method'' [PStr ''POST''],
      Call ''fluxio_request_set_uri'' [PStr ''/post''],
      Call ''fluxio_headers_set'' [PStr ''host'', PStr ''httpbin.org''],
      Call ''fluxio_headers_set'' [PStr ''expect'', PStr ''100-continue''],
      Printf ''    with expect-continue ...\<newline>'' [],
      Call ''fluxio_request_on_informational'' [],
      Call ''fluxio_body_new'' [],
      Call ''fluxio_body_set_userdata'' [],
      Call ''fluxio_body_set_data_func'' [],
      Call ''fluxio_request_set_body'' [],
      Call ''fluxio_clientconn_send'' [],
      Printf ''sending ...\<newline>'' [],
      ExecutorPush EXAMPLE_SEND,
      Call ''fluxio_clientconn_free'' [PPtr (Some 2)]]"

definition handshake_done :: fluxio_task where
  "handshake_done = \<lparr>task_addr = 1, userdata = EXAMPLE_HANDSHAKE, payload = OutClientconn 2\<rparr>"

definition send_failed :: fluxio_task where
  "send_failed =
     \<lparr>task_addr = 3, userdata = EXAMPLE_SEND,
      payload = OutError \<lparr>error_code = 4, error_text = ''connection reset''\<rparr>\<rparr>"


definition handshake_failed :: fluxio_task where
  "handshake_failed =
     \<lparr>task_addr = 1, userdata = EXAMPLE_HANDSHAKE,
      payload = OutError \<lparr>error_code = 4, error_text = ''refused''\<rparr>\<rparr>"



definition world_blocked :: world where
  "world_blocked =
     base_world
       \<lparr>polls := [\<lparr>callbacks = [CbCall Rd (Context 11) (- 1) EAGAIN], returned = None\<rparr>]\<rparr>"

definition world_wake :: world where
  "world_wake =
     base_world
       \<lparr>polls := [\<lparr>callbacks = [CbCall Rd (Context 11) (- 1) EAGAIN], returned = None\<rparr>],
        selects := [\<lparr>sel_ret = 1, read_ready = True, write_ready = False\<rparr>]\<rparr>"

definition world_handshake_error :: world where
  "world_handshake_error =
     base_world\<lparr>polls := [\<lparr>callbacks = [], returned = Some handshake_failed\<rparr>]\<rparr>"


definition world_send_error :: world where
  "world_send_error =
     base_world
       \<lparr>argv := [''upload'', ''data.bin''],
        polls :=
          [\<lparr>callbacks = [], returned = Some handshake_done\<rparr>,
           \<lparr>callbacks = [CbCall Wr (Context 10) (- 1) EAGAIN, CbCall Rd (Context 11) (- 1) EAGAIN],
            returned = None\<rparr>,
           \<lparr>callbacks = [CbCall Rd (Context 12) (- 1) 104], returned = Some send_failed\<rparr>],
        selects := [\<lparr>sel_ret = 1, read_ready = True, write_ready = False\<rparr>]\<rparr>"


definition world_high_fd :: world where
  "world_high_fd =
     base_world
       \<lparr>argv := [''upload'', ''data.bin''],
        getaddrinfo_result := Some [\<lparr>socket_ret = 1024, connect_ret = 0\<rparr>],
        polls :=
          [\<lparr>callbacks = [], returned = Some handshake_done\<rparr>,
           \<lparr>callbacks = [CbCall Wr (Context 10) 40 0, CbCall Rd (Context 11) (- 1) EAGAIN],
            returned = None\<rparr>,
           \<lparr>callbacks = [CbCall Rd (Context 12) 25 0, CbCall Wr (Context 13) (- 1) EAGAIN],
            returned = None\<rparr>],
        selects := [\<lparr>sel_ret = 1, read_ready = True, write_ready = False\<rparr>,
                    \<lparr>sel_ret = 1, read_ready = True, write_ready = False\<rparr>]\<rparr>"


section \<open>Properties of the I/O adapter\<close>

text \<open>
  C3. A call of \<^verbatim>\<open>read_cb\<close> or \<^verbatim>\<open>write_cb\<close> makes one transfer. When the transfer moved
  zero or more bytes the callback returns that count and leaves the connection alone.
  When it failed with an \<^verbatim>\<open>errno\<close> other than \<^verbatim>\<open>EAGAIN\<close> the callback returns
  \<^verbatim>\<open>FLUXIO_IO_ERROR\<close>, again after that single transfer. When it would block the callback
  frees the waker stored for its direction, if there is one, stores the waker of the
  current poll context and returns \<^verbatim>\<open>FLUXIO_IO_PENDING\<close>.
\<close>

theorem io_adapter_results:
  "(0 \<le> sint ret \<longrightarrow>
      read_cb h c ctx ret errno = (ret, c, [Sys_read (fd c)])
      \<and> write_cb h c ctx ret errno = (ret, c, [Sys_write (fd c)])
      \<and> int (unat ret) = sint ret)
   \<and> (sint ret < 0 \<and> errno \<noteq> EAGAIN \<longrightarrow>
      read_cb h c ctx ret errno = (FLUXIO_IO_ERROR h, c, [Sys_read (fd c)])
      \<and> write_cb h c ctx ret errno = (FLUXIO_IO_ERROR h, c, [Sys_write (fd c)]))
   \<and> (sint ret < 0 \<and> errno = EAGAIN \<longrightarrow>
      read_cb h c ctx ret errno =
        (FLUXIO_IO_PENDING h, c\<lparr>read_waker := Some (fluxio_context_waker ctx)\<rparr>,
         Sys_read (fd c) # map (WakerFree Rd) (slot_list Rd c)
           @ [ContextWaker Rd (fluxio_context_waker ctx)])
      \<and> write_cb h c ctx ret errno =
        (FLUXIO_IO_PENDING h, c\<lparr>write_waker := Some (fluxio_context_waker ctx)\<rparr>,
         Sys_write (fd c) # map (WakerFree Wr) (slot_list Wr c)
           @ [ContextWaker Wr (fluxio_context_waker ctx)]))"
proof -
  have "int (unat ret) = sint ret" if nonneg: "0 \<le> sint ret"
  proof -
    have "sint ret < 2 ^ 64"
      using sint_lt[of ret] by simp
    then have "take_bit 64 (sint ret) = sint ret"
      using nonneg by (simp add: take_bit_int_eq_self)
    then show ?thesis
      using uint_sint[of ret] by simp
  qed
  then show ?thesis
    by (auto simp: read_cb_def write_cb_def word_sle_eq slot_list_def split: option.splits)
qed

theorem io_adapter_results_witness:
  "0 \<le> sint (5 :: ssize_t)
   \<and> read_cb \<lparr>FLUXIO_IO_PENDING = 0xFFFFFFFF, FLUXIO_IO_ERROR = 0xFFFFFFFE\<rparr>
        \<lparr>fd = 4, read_waker = Some 7, write_waker = None\<rparr> (Context 9) 5 0
       = (5, \<lparr>fd = 4, read_waker = Some 7, write_waker = None\<rparr>, [Sys_read 4])
   \<and> sint (- 1 :: ssize_t) < 0 \<and> 104 \<noteq> EAGAIN
   \<and> write_cb \<lparr>FLUXIO_IO_PENDING = 0xFFFFFFFF, FLUXIO_IO_ERROR = 0xFFFFFFFE\<rparr>
        \<lparr>fd = 4, read_waker = Some 7, write_waker = None\<rparr> (Context 9) (- 1) 104
       = (0xFFFFFFFE, \<lparr>fd = 4, read_waker = Some 7, write_waker = None\<rparr>, [Sys_write 4])
   \<and> read_cb \<lparr>FLUXIO_IO_PENDING = 0xFFFFFFFF, FLUXIO_IO_ERROR = 0xFFFFFFFE\<rparr>
        \<lparr>fd = 4, read_waker = Some 7, write_waker = None\<rparr> (Context 9) (- 1) EAGAIN
       = (0xFFFFFFFF, \<lparr>fd = 4, read_waker = Some 9, write_waker = None\<rparr>,
          [Sys_read 4, WakerFree Rd 7, ContextWaker Rd 9])"
  using
    io_adapter_results[where ret = 5 and errno = 0 and ctx = "Context 9"
      and h = "\<lparr>FLUXIO_IO_PENDING = 0xFFFFFFFF, FLUXIO_IO_ERROR = 0xFFFFFFFE\<rparr>"
      and c = "\<lparr>fd = 4, read_waker = Some 7, write_waker = None\<rparr>"]
    io_adapter_results[where ret = "- 1" and errno = 104 and ctx = "Context 9"
      and h = "\<lparr>FLUXIO_IO_PENDING = 0xFFFFFFFF, FLUXIO_IO_ERROR = 0xFFFFFFFE\<rparr>"
      and c = "\<lparr>fd = 4, read_waker = Some 7, write_waker = None\<rparr>"]
    io_adapter_results[where ret = "- 1" and errno = EAGAIN and ctx = "Context 9"
      and h = "\<lparr>FLUXIO_IO_PENDING = 0xFFFFFFFF, FLUXIO_IO_ERROR = 0xFFFFFFFE\<rparr>"
      and c = "\<lparr>fd = 4, read_waker = Some 7, write_waker = None\<rparr>"]
  by (simp add: EAGAIN_def slot_list_def fluxio_context_waker_def)

lemma ledger_Nil: "ledger d held [] = held"
  by (simp add: ledger_def)

lemma ledger_Cons: "ledger d held (e # es) = ledger d (ledger_step d held e) es"
  by (simp add: ledger_def)

lemma ledger_append: "ledger d held (xs @ ys) = ledger d (ledger d held xs) ys"
  by (simp add: ledger_def)

lemma run_callback_events:
  "snd (run_callback h c (CbCall d ctx ret errno)) =
     (if 0 \<le>s ret \<or> errno \<noteq> EAGAIN then [case d of Rd \<Rightarrow> Sys_read (fd c) | Wr \<Rightarrow> Sys_write (fd c)]
      else (case d of Rd \<Rightarrow> Sys_read (fd c) | Wr \<Rightarrow> Sys_write (fd c))
             # map (WakerFree d) (slot_list d c) @ [ContextWaker d (fluxio_context_waker ctx)])"
  by (cases d) (auto simp: read_cb_def write_cb_def slot_list_def split: option.splits)

lemma run_callback_slot:
  "slot d' (fst (run_callback h c (CbCall d ctx ret errno))) =
     (if d' = d \<and> \<not> 0 \<le>s ret \<and> errno = EAGAIN then Some (fluxio_context_waker ctx)
      else slot d' c)"
  by (cases d; cases d') (auto simp: read_cb_def write_cb_def)

lemma run_callback_ledger_prefix:
  "length (ledger d (slot_list d c) (take n (snd (run_callback h c cb)))) \<le> 1"
proof (cases cb)
  case (CbCall d' ctx ret errno)
  show ?thesis
    unfolding CbCall run_callback_events
    by (cases d; cases d'; cases "read_waker c"; cases "write_waker c")
       (auto simp: slot_list_def ledger_Cons ledger_Nil take_Cons')
qed

lemma run_callback_ledger_end:
  "ledger d (slot_list d c) (snd (run_callback h c cb)) = slot_list d (fst (run_callback h c cb))"
proof (cases cb)
  case (CbCall d' ctx ret errno)
  have "slot_list d (fst (run_callback h c (CbCall d' ctx ret errno))) =
          (if d = d' \<and> \<not> 0 \<le>s ret \<and> errno = EAGAIN then [fluxio_context_waker ctx]
           else slot_list d c)"
    unfolding slot_list_def run_callback_slot by simp
  then show ?thesis
    unfolding CbCall run_callback_events
    by (cases d; cases d'; cases "read_waker c"; cases "write_waker c")
       (auto simp: slot_list_def ledger_Cons ledger_Nil)
qed

lemma run_callbacks_ledger_end:
  "ledger d (slot_list d c) (snd (run_callbacks h c cs)) = slot_list d (fst (run_callbacks h c cs))"
proof (induction cs arbitrary: c)
  case Nil
  show ?case by (simp add: ledger_Nil)
next
  case (Cons cb cs)
  show ?case
    using Cons.IH[of "fst (run_callback h c cb)"] run_callback_ledger_end[of d c h cb]
    by (simp add: split_beta ledger_append)
qed

lemma run_callbacks_ledger_prefix:
  "length (ledger d (slot_list d c) (take n (snd (run_callbacks h c cs)))) \<le> 1"
proof (induction cs arbitrary: c n)
  case Nil
  show ?case by (simp add: ledger_Nil slot_list_def split: option.splits)
next
  case (Cons cb cs)
  show ?case
    using Cons.IH[of "fst (run_callback h c cb)" "n - length (snd (run_callback h c cb))"]
      run_callback_ledger_end[of d c h cb] run_callback_ledger_prefix[of d c n h cb]
    by (cases "n \<le> length (snd (run_callback h c cb))")
       (simp_all add: split_beta ledger_append)
qed

lemma ledger_registration:
  assumes "\<And>n. length (ledger d held (take n tr)) \<le> 1" and "tr = p @ ContextWaker d w # rest"
  shows "ledger d held p = []"
proof -
  have "length (ledger d held (take (Suc (length p)) tr)) \<le> 1"
    using assms(1) .
  then show ?thesis
    using assms(2) by (simp add: ledger_append ledger_Cons ledger_Nil)
qed

section \<open>The trace of the executor loop\<close>

lemma run_ok_append:
  "run_ok inr sus H prev (xs @ ys) =
     (run_ok inr sus H prev xs \<and> run_ok inr sus (\<lambda>d. ledger d (H d) xs) (last_event prev xs) ys)"
proof (induction xs arbitrary: H prev)
  case Nil
  show ?case by (simp add: ledger_Nil last_event_def)
next
  case (Cons x xs)
  show ?case
    by (simp add: Cons.IH ledger_Cons last_event_def)
qed

lemma run_ok_split:
  assumes "run_ok inr sus H prev tr" and "tr = p @ e # rest"
  shows "ev_ok inr sus (\<lambda>d. ledger d (H d) p) (last_event prev p) e"
  using assms by (simp add: run_ok_append)

lemma neutral_ledger: "\<forall>e \<in> set es. neutral e \<Longrightarrow> ledger d held es = held"
proof (induction es)
  case Nil
  show ?case by (simp add: ledger_Nil)
next
  case (Cons x xs)
  then show ?case by (cases x) (simp_all add: ledger_Cons neutral_def)
qed

lemma neutral_run_ok: "\<forall>e \<in> set es. neutral e \<Longrightarrow> run_ok inr sus H prev es"
proof (induction es arbitrary: H prev)
  case Nil
  show ?case by simp
next
  case (Cons x xs)
  have "(\<lambda>d. ledger_step d (H d) x) = H"
    using Cons.prems by (cases x) (auto simp: neutral_def)
  moreover have "ev_ok inr sus H prev x"
    using Cons.prems by (cases x) (auto simp: neutral_def ev_ok_def)
  ultimately show ?case using Cons by simp
qed

lemma run_callback_ok: "run_ok inr sus (slots c) prev (snd (run_callback h c cb))"
proof (cases cb)
  case (CbCall d ctx ret errno)
  show ?thesis
    unfolding CbCall run_callback_events
    by (cases d; cases "read_waker c"; cases "write_waker c")
       (auto simp: slots_def slot_list_def ev_ok_def)
qed

lemma slots_ledger: "(\<lambda>d. ledger d (slots c d) (snd (run_callback h c cb))) = slots (fst (run_callback h c cb))"
  by (rule ext) (simp add: slots_def run_callback_ledger_end)

lemma slots_ledgers: "(\<lambda>d. ledger d (slots c d) (snd (run_callbacks h c cbs))) = slots (fst (run_callbacks h c cbs))"
  by (rule ext) (simp add: slots_def run_callbacks_ledger_end)

lemma run_callbacks_ok: "run_ok inr sus (slots c) prev (snd (run_callbacks h c cbs))"
proof (induction cbs arbitrary: c prev)
  case Nil
  show ?case by simp
next
  case (Cons cb cbs)
  show ?case
    by (simp add: split_beta run_ok_append run_callback_ok slots_ledger Cons.IH)
qed

lemma foreach_neutral: "\<forall>e \<in> set (fluxio_headers_foreach hs). neutral e"
  by (auto simp: fluxio_headers_foreach_def print_each_header_def neutral_def)

lemma foreach_ok: "run_ok inr sus H prev (fluxio_headers_foreach hs)"
  by (rule neutral_run_ok) (rule foreach_neutral)

lemma foreach_ledger: "ledger d held (fluxio_headers_foreach hs) = held"
  by (rule neutral_ledger) (rule foreach_neutral)

lemma free_conn_data_run: "run_ok inr sus (slots c) prev (free_conn_data c)"
  by (cases "read_waker c"; cases "write_waker c")
     (auto simp: free_conn_data_def slots_def slot_list_def ev_ok_def)

lemma free_conn_data_ledger: "ledger d (slots c d) (free_conn_data c) = []"
  by (cases d; cases "read_waker c"; cases "write_waker c")
     (auto simp: free_conn_data_def slots_def slot_list_def ledger_Cons ledger_Nil)

lemma dispatch_ok: "run_ok inr sus (slots (conn st)) prev (snd (dispatch prog w st t))"
  by (cases prog; cases "userdata t"; cases "payload t")
     (simp_all add: client_dispatch_def upload_dispatch_def Let_def fail_def run_ok_append
        foreach_ok foreach_ledger free_conn_data_run free_conn_data_ledger ev_ok_def)

lemma dispatch_continue:
  assumes "dispatch prog w st t = (Continue st1, es)"
  shows "conn st1 = conn st \<and> (\<forall>e \<in> set es. neutral e)"
  using assms foreach_neutral
  by (cases prog; cases "userdata t"; cases "payload t")
     (auto simp: client_dispatch_def upload_dispatch_def Let_def neutral_def split: if_splits)

lemma run_callback_fd: "fd (fst (run_callback h c cb)) = fd c"
proof (cases cb)
  case (CbCall d ctx ret errno)
  show ?thesis
    unfolding CbCall by (cases d) (simp_all add: read_cb_def write_cb_def)
qed

lemma run_callbacks_fd: "fd (fst (run_callbacks h c cbs)) = fd c"
proof (induction cbs arbitrary: c)
  case Nil
  show ?case by simp
next
  case (Cons cb cbs)
  show ?case
    using Cons.IH[of "fst (run_callback h c cb)"] run_callback_fd[of h c cb]
    by (simp add: split_beta)
qed

lemma run_callbacks_keep:
  "slot d c \<noteq> None \<Longrightarrow> slot d (fst (run_callbacks h c cbs)) \<noteq> None"
proof (induction cbs arbitrary: c)
  case Nil
  then show ?case by simp
next
  case (Cons cb cbs)
  obtain d' ctx ret errno where cb: "cb = CbCall d' ctx ret errno"
    by (cases cb)
  have "slot d (fst (run_callback h c cb)) \<noteq> None"
    unfolding cb run_callback_slot using Cons.prems by simp
  then show ?case
    using Cons.IH[of "fst (run_callback h c cb)"] by (simp add: split_beta)
qed

lemma run_callbacks_live:
  "list_ex would_block cbs \<Longrightarrow>
     read_waker (fst (run_callbacks h c cbs)) \<noteq> None
     \<or> write_waker (fst (run_callbacks h c cbs)) \<noteq> None"
proof (induction cbs arbitrary: c)
  case Nil
  then show ?case by simp
next
  case (Cons cb cbs)
  obtain d ctx ret errno where cb: "cb = CbCall d ctx ret errno"
    by (cases cb)
  show ?case
  proof (cases "would_block cb")
    case True
    then have "slot d (fst (run_callback h c cb)) \<noteq> None"
      unfolding cb run_callback_slot by simp
    then have "slot d (fst (run_callbacks h (fst (run_callback h c cb)) cbs)) \<noteq> None"
      by (rule run_callbacks_keep)
    then show ?thesis
      by (cases d) (simp_all add: split_beta)
  next
    case False
    then have "list_ex would_block cbs"
      using Cons.prems by simp
    then show ?thesis
      using Cons.IH[of "fst (run_callback h c cb)"] by (simp add: split_beta)
  qed
qed

lemma build_sets_range:
  "0 \<le> fd (conn st) \<Longrightarrow> fd (conn st) < FD_SETSIZE \<Longrightarrow>
     build_sets st = (read_waker (conn st) \<noteq> None, write_waker (conn st) \<noteq> None)"
  by (simp add: build_sets_def FD_ZERO_def FD_SET_def Let_def)

lemma build_sets_live:
  "(read_waker (conn st) \<noteq> None \<longrightarrow> fst (build_sets st))
   \<and> (write_waker (conn st) \<noteq> None \<longrightarrow> snd (build_sets st))"
  by (simp add: build_sets_def FD_SET_def Let_def)

lemma select_call_ev:
  assumes "sus \<longrightarrow> read_waker (conn st) \<noteq> None \<or> write_waker (conn st) \<noteq> None"
    and "inr \<longrightarrow> 0 \<le> fd (conn st) \<and> fd (conn st) < FD_SETSIZE"
  shows "ev_ok inr sus (slots (conn st)) (Some (ExecutorPoll None)) (select_call st)"
  using assms build_sets_live[of st] build_sets_range[of st]
  by (cases "read_waker (conn st)"; cases "write_waker (conn st)")
     (auto simp: select_call_def split_beta slots_def slot_list_def ev_ok_def)

lemma select_call_ok:
  assumes "sus \<longrightarrow> read_waker (conn st) \<noteq> None \<or> write_waker (conn st) \<noteq> None"
    and "inr \<longrightarrow> 0 \<le> fd (conn st) \<and> fd (conn st) < FD_SETSIZE"
  shows "run_ok inr sus (slots (conn st)) (Some (ExecutorPoll None)) [select_call st]"
  using select_call_ev[OF assms] by simp

lemma select_call_ledger: "ledger d held (select_call st # es) = ledger d held es"
  by (simp add: select_call_def split_beta ledger_Cons)

lemma wait_phase_events:
  "snd (wait_phase st s) =
     select_call st
       # (if sel_ret s < 0 then [Printf ''select() error\<newline>'' []]
          else (if fst (build_sets st) \<and> read_ready s then [WakerWake Rd (read_waker (conn st))] else [])
             @ (if snd (build_sets st) \<and> write_ready s then [WakerWake Wr (write_waker (conn st))] else []))"
  by (simp add: wait_phase_def select_call_def select_def FD_ISSET_def Let_def split_beta)

lemma wait_phase_state:
  "wait_phase st s = (Some st2, es) \<Longrightarrow>
     fd (conn st2) = fd (conn st)
     \<and> read_waker (conn st2) = (if fst (build_sets st) \<and> read_ready s then None else read_waker (conn st))
     \<and> write_waker (conn st2) = (if snd (build_sets st) \<and> write_ready s then None else write_waker (conn st))"
  by (auto simp: wait_phase_def select_def FD_ISSET_def Let_def split_beta split: if_splits)

lemma wait_phase_ok:
  assumes "sus \<longrightarrow> read_waker (conn st) \<noteq> None \<or> write_waker (conn st) \<noteq> None"
    and "inr \<longrightarrow> 0 \<le> fd (conn st) \<and> fd (conn st) < FD_SETSIZE"
  shows "run_ok inr sus (slots (conn st)) (Some (ExecutorPoll None)) (snd (wait_phase st s))"
proof -
  have l: "(\<lambda>d. ledger_step d (slots (conn st) d) (select_call st)) = slots (conn st)"
    by (simp add: select_call_def split_beta fun_eq_iff)
  have r: "inr \<Longrightarrow> fst (build_sets st) = (read_waker (conn st) \<noteq> None)
                     \<and> snd (build_sets st) = (write_waker (conn st) \<noteq> None)"
    using assms(2) build_sets_range[of st] by simp
  have "run_ok inr sus (slots (conn st)) (Some (select_call st))
          ((if fst (build_sets st) \<and> read_ready s then [WakerWake Rd (read_waker (conn st))] else [])
             @ (if snd (build_sets st) \<and> write_ready s then [WakerWake Wr (write_waker (conn st))] else []))"
    using r
    by (cases "read_waker (conn st)"; cases "write_waker (conn st)")
       (auto simp: slots_def slot_list_def ev_ok_def)
  then show ?thesis
    unfolding wait_phase_events using select_call_ev[OF assms] l
    by (simp add: ev_ok_def)
qed

lemma wait_phase_ledger:
  "wait_phase st s = (Some st2, es) \<Longrightarrow> ledger d (slots (conn st) d) es = slots (conn st2) d"
proof -
  assume a: "wait_phase st s = (Some st2, es)"
  have ns: "\<not> sel_ret s < 0"
    using a by (auto simp: wait_phase_def select_def Let_def split_beta split: if_splits)
  have es: "es = snd (wait_phase st s)"
    using a by simp
  show ?thesis
    using wait_phase_state[OF a] ns
    unfolding es wait_phase_events select_call_ledger
    by (cases d; cases "read_waker (conn st)"; cases "write_waker (conn st)")
       (auto simp: slots_def slot_list_def ledger_Cons ledger_Nil ledger_append)
qed

lemma last_event_append: "last_event prev (xs @ ys) = last_event (last_event prev xs) ys"
  by (simp add: last_event_def)

lemma drain_ok:
  "drain prog w ps st = (r, tr) \<Longrightarrow>
     run_ok inr sus (slots (conn st)) prev tr
     \<and> (\<forall>st1 ps1. r = Drained st1 ps1 \<longrightarrow>
           last_event prev tr = Some (ExecutorPoll None)
           \<and> (\<lambda>d. ledger d (slots (conn st) d) tr) = slots (conn st1))"
proof (induction ps arbitrary: st prev r tr)
  case Nil
  then show ?case by auto
next
  case (Cons p ps)
  obtain c1 e1 where cb: "run_callbacks (hdr w) (conn st) (callbacks p) = (c1, e1)"
    by (cases "run_callbacks (hdr w) (conn st) (callbacks p)")
  have ok1: "run_ok inr sus (slots (conn st)) prev e1"
    using run_callbacks_ok[of inr sus "conn st" prev "hdr w" "callbacks p"] cb by simp
  have l1: "(\<lambda>d. ledger d (slots (conn st) d) e1) = slots c1"
    using slots_ledgers[of "conn st" "hdr w" "callbacks p"] cb by simp
  show ?case
  proof (cases "returned p")
    case None
    then have "r = Drained (st\<lparr>conn := c1\<rparr>) ps" "tr = e1 @ [ExecutorPoll None]"
      using Cons.prems cb by auto
    then show ?thesis
      using ok1 l1 by (simp add: run_ok_append ev_ok_def last_event_def ledger_append ledger_Cons ledger_Nil)
  next
    case (Some task)
    obtain ct e2 where d: "dispatch prog w (st\<lparr>conn := c1\<rparr>) task = (ct, e2)"
      by (cases "dispatch prog w (st\<lparr>conn := c1\<rparr>) task")
    have ok2: "run_ok inr sus (slots c1) (Some (ExecutorPoll (Some task))) e2"
      using dispatch_ok[of inr sus "st\<lparr>conn := c1\<rparr>" _ prog w task] d by simp
    have okp: "run_ok inr sus (slots (conn st)) prev (e1 @ ExecutorPoll (Some task) # e2)"
      using ok1 ok2 l1 by (simp add: run_ok_append ev_ok_def)
    show ?thesis
    proof (cases ct)
      case (Continue st2)
      obtain r3 e3 where d3: "drain prog w ps st2 = (r3, e3)"
        by (cases "drain prog w ps st2")
      have rt: "r = r3" "tr = e1 @ ExecutorPoll (Some task) # e2 @ e3"
        using Cons.prems cb Some d Continue d3 by auto
      have eq: "conn st2 = c1" and ne: "\<forall>e \<in> set e2. neutral e"
        using dispatch_continue[OF d[unfolded Continue]] by auto
      have l2: "(\<lambda>d. ledger d (slots (conn st) d) (e1 @ ExecutorPoll (Some task) # e2)) = slots c1"
        using l1 neutral_ledger[OF ne] by (simp add: ledger_append ledger_Cons fun_eq_iff)
      have ih: "run_ok inr sus (slots c1) (last_event prev (e1 @ ExecutorPoll (Some task) # e2)) e3
         \<and> (\<forall>st1 ps1. r3 = Drained st1 ps1 \<longrightarrow>
               last_event (last_event prev (e1 @ ExecutorPoll (Some task) # e2)) e3 = Some (ExecutorPoll None)
               \<and> (\<lambda>d. ledger d (slots c1 d) e3) = slots (conn st1))"
        using Cons.IH[OF d3] eq by simp
      have tr: "tr = (e1 @ ExecutorPoll (Some task) # e2) @ e3"
        using rt by simp
      have "run_ok inr sus (slots (conn st)) prev tr"
        unfolding tr run_ok_append[of _ _ _ _ "e1 @ ExecutorPoll (Some task) # e2" e3]
        using okp ih l2 by simp
      moreover have "(\<lambda>d. ledger d (slots (conn st) d) tr) = (\<lambda>d. ledger d (slots c1 d) e3)"
        unfolding tr ledger_append[of _ _ "e1 @ ExecutorPoll (Some task) # e2" e3]
        using l2 by (simp add: fun_eq_iff)
      moreover have "last_event prev tr
                       = last_event (last_event prev (e1 @ ExecutorPoll (Some task) # e2)) e3"
        unfolding tr by (rule last_event_append)
      ultimately show ?thesis
        using ih rt(1) by simp
    next
      case (Return x)
      then show ?thesis using Cons.prems cb Some d okp by auto
    next
      case AssertionFailed
      then show ?thesis using Cons.prems cb Some d okp by auto
    qed
  qed
qed

text \<open>
  What the inner loop leaves: the descriptor of the connection is the one it started
  with, the polls that remain are among those it was given, and when the engine suspends
  at transfers that would block, some slot holds a waker.
\<close>

lemma drain_state:
  "drain prog w ps st = (Drained st1 ps1, tr) \<Longrightarrow>
     fd (conn st1) = fd (conn st)
     \<and> (suspends_at_would_block ps \<longrightarrow>
          suspends_at_would_block ps1
          \<and> (read_waker (conn st1) \<noteq> None \<or> write_waker (conn st1) \<noteq> None))"
proof (induction ps arbitrary: st tr)
  case Nil
  then show ?case by simp
next
  case (Cons p ps)
  obtain c1 e1 where cb: "run_callbacks (hdr w) (conn st) (callbacks p) = (c1, e1)"
    by (cases "run_callbacks (hdr w) (conn st) (callbacks p)")
  have f1: "fd c1 = fd (conn st)"
    using run_callbacks_fd[of "hdr w" "conn st" "callbacks p"] cb by simp
  show ?case
  proof (cases "returned p")
    case None
    then have st1: "st1 = st\<lparr>conn := c1\<rparr>" "ps1 = ps"
      using Cons.prems cb by auto
    have "read_waker c1 \<noteq> None \<or> write_waker c1 \<noteq> None"
      if "suspends_at_would_block (p # ps)"
      using that None run_callbacks_live[of "callbacks p" "hdr w" "conn st"] cb
      by (simp add: suspends_at_would_block_def)
    then show ?thesis
      using st1 f1 by (auto simp: suspends_at_would_block_def)
  next
    case (Some task)
    obtain ct e2 where d: "dispatch prog w (st\<lparr>conn := c1\<rparr>) task = (ct, e2)"
      by (cases "dispatch prog w (st\<lparr>conn := c1\<rparr>) task")
    show ?thesis
    proof (cases ct)
      case (Continue st2)
      obtain r3 e3 where d3: "drain prog w ps st2 = (r3, e3)"
        by (cases "drain prog w ps st2")
      have rt: "r3 = Drained st1 ps1"
        using Cons.prems cb Some d Continue d3 by auto
      have eq: "conn st2 = c1"
        using dispatch_continue[OF d[unfolded Continue]] by auto
      show ?thesis
        using Cons.IH[OF d3[unfolded rt]] eq f1 by (auto simp: suspends_at_would_block_def)
    next
      case (Return x)
      then show ?thesis using Cons.prems cb Some d by auto
    next
      case AssertionFailed
      then show ?thesis using Cons.prems cb Some d by auto
    qed
  qed
qed

lemma main_loop_ok:
  assumes "sus \<longrightarrow> suspends_at_would_block ps"
    and "inr \<longrightarrow> 0 \<le> fd (conn st) \<and> fd (conn st) < FD_SETSIZE"
  shows "run_ok inr sus (slots (conn st)) prev (snd (main_loop prog w ps ss st))"
  using assms
proof (induction ss arbitrary: ps st prev)
  case Nil
  obtain r tr where d: "drain prog w ps st = (r, tr)"
    by (cases "drain prog w ps st")
  show ?case
  proof (cases r)
    case (Stopped out)
    then show ?thesis using drain_ok[OF d, of inr sus prev] d by simp
  next
    case (Drained st1 ps1)
    have okd: "run_ok inr sus (slots (conn st)) prev tr" "last_event prev tr = Some (ExecutorPoll None)"
       "(\<lambda>d. ledger d (slots (conn st) d) tr) = slots (conn st1)"
      using drain_ok[OF d, of inr sus prev] Drained by auto
    have "run_ok inr sus (slots (conn st1)) (Some (ExecutorPoll None)) [select_call st1]"
      using drain_state[OF d[unfolded Drained]] Nil.prems by (intro select_call_ok) auto
    then show ?thesis
      using d Drained okd by (simp add: run_ok_append)
  qed
next
  case (Cons s ss)
  obtain r tr where d: "drain prog w ps st = (r, tr)"
    by (cases "drain prog w ps st")
  show ?case
  proof (cases r)
    case (Stopped out)
    then show ?thesis using drain_ok[OF d, of inr sus prev] d by simp
  next
    case (Drained st1 ps1)
    obtain x e where wp: "wait_phase st1 s = (x, e)"
      by (cases "wait_phase st1 s")
    have okd: "run_ok inr sus (slots (conn st)) prev tr" "last_event prev tr = Some (ExecutorPoll None)"
       "(\<lambda>d. ledger d (slots (conn st) d) tr) = slots (conn st1)"
      using drain_ok[OF d, of inr sus prev] Drained by auto
    have ds: "fd (conn st1) = fd (conn st)" "sus \<longrightarrow> suspends_at_would_block ps1"
      "sus \<longrightarrow> read_waker (conn st1) \<noteq> None \<or> write_waker (conn st1) \<noteq> None"
      using drain_state[OF d[unfolded Drained]] Cons.prems by auto
    have oke: "run_ok inr sus (slots (conn st1)) (Some (ExecutorPoll None)) e"
      using wait_phase_ok[of sus st1 inr s] wp ds Cons.prems by simp
    show ?thesis
    proof (cases x)
      case None
      then show ?thesis using d Drained wp okd oke by (simp add: run_ok_append)
    next
      case (Some st2)
      have l: "(\<lambda>d. ledger d (slots (conn st1) d) e) = slots (conn st2)"
        using wait_phase_ledger[OF wp[unfolded Some]] by (simp add: fun_eq_iff)
      have f2: "fd (conn st2) = fd (conn st)"
        using wait_phase_state[OF wp[unfolded Some]] ds(1) by simp
      obtain out tr2 where m: "main_loop prog w ps1 ss st2 = (out, tr2)"
        by (cases "main_loop prog w ps1 ss st2")
      have "run_ok inr sus (slots (conn st2)) (last_event (Some (ExecutorPoll None)) e) tr2"
        using Cons.IH[of ps1 st2] m ds(2) f2 Cons.prems(2) by simp
      then show ?thesis
        using d Drained wp Some m okd oke l
        by (simp add: run_ok_append)
    qed
  qed
qed
section \<open>The trace of a whole run\<close>

lemma is_setup_simps [simp]:
  "is_setup (Printf f a)" "is_setup (Call f a) = (f \<noteq> ''fluxio_clientconn_send'')"
  "is_setup (ExecutorPush EXAMPLE_HANDSHAKE)"
  by (simp_all add: is_setup_def)

lemma try_addrs_setup: "\<forall>e \<in> set (snd (try_addrs as)). is_setup e"
  by (induction as) (auto simp: split_beta)

lemma connect_to_setup: "\<forall>e \<in> set (snd (connect_to g host port)). is_setup e"
proof (cases g)
  case None
  then show ?thesis by (simp add: connect_to_def)
next
  case (Some as)
  obtain r e where t: "try_addrs as = (r, e)"
    by (cases "try_addrs as")
  have "\<forall>x \<in> set e. is_setup x"
    using try_addrs_setup[of as] t by simp
  then show ?thesis
    using Some t by (cases r) (auto simp: connect_to_def)
qed

lemma hookup_setup: "\<forall>e \<in> set (hookup prog w). is_setup e"
  by (cases prog) (auto simp: hookup_def)

lemma connect_to_fd: "fst (connect_to g host port) = fst (connect_to g host' port')"
  by (cases g) (simp_all add: connect_to_def split: prod.splits option.splits)

lemma main_shape:
  "\<exists>pre. (\<forall>e \<in> set pre. is_setup e)
     \<and> (main prog w = (Exit 1, pre)
        \<or> (\<exists>x. 0 \<le> x \<and> (\<forall>host port. fst (connect_to (getaddrinfo_result w) host port) = x)
              \<and> main prog w =
              (fst (main_loop prog w (polls w) (selects w) (initial_state w x)),
               pre @ snd (main_loop prog w (polls w) (selects w) (initial_state w x)))))"
proof (cases prog)
  case Client
  let ?host = "arg w 1 ''httpbin.org''" and ?port = "arg w 2 ''80''"
  obtain x e1 where c: "connect_to (getaddrinfo_result w) ?host ?port = (x, e1)"
    by (cases "connect_to (getaddrinfo_result w) ?host ?port")
  have e1: "\<forall>e \<in> set e1. is_setup e"
    using connect_to_setup[of "getaddrinfo_result w" ?host ?port] c by simp
  consider "x < 0" | "\<not> x < 0" "fcntl_ret w \<noteq> 0" | "\<not> x < 0" "fcntl_ret w = 0"
    by blast
  then show ?thesis
  proof cases
    case 1
    let ?pre = "Printf ''connecting to port %s on %s...\<newline>'' [PStr ?port, PStr ?host] # e1"
    have "main prog w = (Exit 1, ?pre)"
      using 1 c Client by (simp add: client_main_def Let_def)
    moreover have "\<forall>e \<in> set ?pre. is_setup e"
      using e1 by simp
    ultimately show ?thesis
      by blast
  next
    case 2
    let ?pre = "Printf ''connecting to port %s on %s...\<newline>'' [PStr ?port, PStr ?host] # e1
                 @ [Printf ''connected to %s, now get %s\<newline>'' [PStr ?host, PStr (arg w 3 ''/'')],
                    Call ''fcntl'' [PInt x],
                    Printf ''failed to set socket to non-blocking\<newline>'' []]"
    have "main prog w = (Exit 1, ?pre)"
      using 2 c Client by (simp add: client_main_def Let_def)
    moreover have "\<forall>e \<in> set ?pre. is_setup e"
      using e1 by simp
    ultimately show ?thesis
      by blast
  next
    case 3
    have "main prog w =
            (fst (main_loop prog w (polls w) (selects w) (initial_state w x)),
             ([Printf ''connecting to port %s on %s...\<newline>'' [PStr ?port, PStr ?host]] @ e1
               @ [Printf ''connected to %s, now get %s\<newline>'' [PStr ?host, PStr (arg w 3 ''/'')],
                  Call ''fcntl'' [PInt x]] @ hookup Client w)
               @ snd (main_loop prog w (polls w) (selects w) (initial_state w x)))"
      using 3 c Client by (simp add: client_main_def Let_def split_beta initial_state_def)
    moreover have "0 \<le> x"
      using 3 by simp
    moreover have "\<forall>host port. fst (connect_to (getaddrinfo_result w) host port) = x"
      using c connect_to_fd[of "getaddrinfo_result w" _ _ ?host ?port] by simp
    moreover have "\<forall>e \<in> set ([Printf ''connecting to port %s on %s...\<newline>'' [PStr ?port, PStr ?host]] @ e1
               @ [Printf ''connected to %s, now get %s\<newline>'' [PStr ?host, PStr (arg w 3 ''/'')],
                  Call ''fcntl'' [PInt x]] @ hookup Client w). is_setup e"
      using e1 hookup_setup[of Client w] by auto
    ultimately show ?thesis
      by blast
  qed
next
  case Upload
  let ?host = "arg w 2 ''httpbin.org''" and ?port = "arg w 3 ''80''"
  obtain x e2 where c: "connect_to (getaddrinfo_result w) ?host ?port = (x, e2)"
    by (cases "connect_to (getaddrinfo_result w) ?host ?port")
  have e2: "\<forall>e \<in> set e2. is_setup e"
    using connect_to_setup[of "getaddrinfo_result w" ?host ?port] c by simp
  consider "\<not> 1 < length (argv w)" | "1 < length (argv w)" "open_ret w < 0"
    | "1 < length (argv w)" "\<not> open_ret w < 0" "x < 0"
    | "1 < length (argv w)" "\<not> open_ret w < 0" "\<not> x < 0" "fcntl_ret w \<noteq> 0"
    | "1 < length (argv w)" "\<not> open_ret w < 0" "\<not> x < 0" "fcntl_ret w = 0"
    by blast
  then show ?thesis
  proof cases
    case 1
    let ?pre = "[Printf ''Pass a file path as the first argument.\<newline>'' []]"
    have "main prog w = (Exit 1, ?pre)"
      using 1 Upload by (simp add: upload_main_def)
    moreover have "\<forall>e \<in> set ?pre. is_setup e"
      by simp
    ultimately show ?thesis
      by blast
  next
    case 2
    let ?pre = "[Call ''open'' [PStr (argv w ! 1)],
                 Printf ''error opening file to upload: %s\<newline>'' [PStr (open_strerror w)]]"
    have "main prog w = (Exit 1, ?pre)"
      using 2 Upload by (simp add: upload_main_def Let_def)
    moreover have "\<forall>e \<in> set ?pre. is_setup e"
      by simp
    ultimately show ?thesis
      by blast
  next
    case 3
    let ?pre = "[Call ''open'' [PStr (argv w ! 1)],
                 Printf ''connecting to port %s on %s...\<newline>'' [PStr ?port, PStr ?host]] @ e2"
    have "main prog w = (Exit 1, ?pre)"
      using 3 c Upload by (simp add: upload_main_def Let_def)
    moreover have "\<forall>e \<in> set ?pre. is_setup e"
      using e2 by simp
    ultimately show ?thesis
      by blast
  next
    case 4
    let ?pre = "[Call ''open'' [PStr (argv w ! 1)],
                 Printf ''connecting to port %s on %s...\<newline>'' [PStr ?port, PStr ?host]] @ e2
               @ [Printf ''connected to %s, now upload to %s\<newline>'' [PStr ?host, PStr (arg w 4 ''/post'')],
                  Call ''fcntl'' [PInt x],
                  Printf ''failed to set socket to non-blocking\<newline>'' []]"
    have "main prog w = (Exit 1, ?pre)"
      using 4 c Upload by (simp add: upload_main_def Let_def)
    moreover have "\<forall>e \<in> set ?pre. is_setup e"
      using e2 by simp
    ultimately show ?thesis
      by blast
  next
    case 5
    let ?pre = "[Call ''open'' [PStr (argv w ! 1)],
                 Printf ''connecting to port %s on %s...\<newline>'' [PStr ?port, PStr ?host]] @ e2
               @ [Printf ''connected to %s, now upload to %s\<newline>'' [PStr ?host, PStr (arg w 4 ''/post'')],
                  Call ''fcntl'' [PInt x], Call ''malloc'' [PStr ''upload.buf'']] @ hookup Upload w"
    have "main prog w =
            (fst (main_loop prog w (polls w) (selects w) (initial_state w x)),
             ?pre @ snd (main_loop prog w (polls w) (selects w) (initial_state w x)))"
      using 5 c Upload by (simp add: upload_main_def Let_def split_beta initial_state_def)
    moreover have "0 \<le> x"
      using 5 by simp
    moreover have "\<forall>host port. fst (connect_to (getaddrinfo_result w) host port) = x"
      using c connect_to_fd[of "getaddrinfo_result w" _ _ ?host ?port] by simp
    moreover have "\<forall>e \<in> set ?pre. is_setup e"
      using e2 hookup_setup[of Upload w] by auto
    ultimately show ?thesis
      by blast
  qed
qed

lemma is_setup_neutral: "is_setup e \<Longrightarrow> neutral e"
  by (cases e) (simp_all add: is_setup_def neutral_def)

lemma slots_initial: "slots (conn (initial_state w x)) = (\<lambda>d. [])"
proof
  fix d
  show "slots (conn (initial_state w x)) d = []"
    by (cases d) (simp_all add: slots_def slot_list_def initial_state_def)
qed

lemma main_ok:
  "run_ok (fst (connect_to (getaddrinfo_result w) host port) < FD_SETSIZE)
     (suspends_at_would_block (polls w)) (\<lambda>d. []) None (snd (main prog w))"
proof -
  let ?inr = "fst (connect_to (getaddrinfo_result w) host port) < FD_SETSIZE"
  let ?sus = "suspends_at_would_block (polls w)"
  obtain pre where pre: "\<forall>e \<in> set pre. is_setup e"
    and m: "main prog w = (Exit 1, pre)
        \<or> (\<exists>x. 0 \<le> x \<and> (\<forall>host port. fst (connect_to (getaddrinfo_result w) host port) = x)
              \<and> main prog w =
              (fst (main_loop prog w (polls w) (selects w) (initial_state w x)),
               pre @ snd (main_loop prog w (polls w) (selects w) (initial_state w x))))"
    using main_shape[of prog w] by blast
  have n: "\<forall>e \<in> set pre. neutral e"
    using pre is_setup_neutral by blast
  from m show ?thesis
  proof
    assume "main prog w = (Exit 1, pre)"
    then show ?thesis
      using neutral_run_ok[OF n] by simp
  next
    assume "\<exists>x. 0 \<le> x \<and> (\<forall>host port. fst (connect_to (getaddrinfo_result w) host port) = x)
              \<and> main prog w =
              (fst (main_loop prog w (polls w) (selects w) (initial_state w x)),
               pre @ snd (main_loop prog w (polls w) (selects w) (initial_state w x)))"
    then obtain x where x0: "0 \<le> x"
      and xc: "fst (connect_to (getaddrinfo_result w) host port) = x"
      and x: "snd (main prog w) =
        pre @ snd (main_loop prog w (polls w) (selects w) (initial_state w x))"
      by auto
    have f: "fd (conn (initial_state w x)) = x"
      by (simp add: initial_state_def)
    have "run_ok ?inr ?sus (slots (conn (initial_state w x))) (last_event None pre)
            (snd (main_loop prog w (polls w) (selects w) (initial_state w x)))"
      by (rule main_loop_ok) (simp_all add: f x0 xc)
    then show ?thesis
      unfolding x run_ok_append using neutral_run_ok[OF n] neutral_ledger[OF n]
      by (simp add: slots_initial)
  qed
qed

lemma main_event:
  assumes "snd (main prog w) = p @ e # rest"
  shows "ev_ok (fst (connect_to (getaddrinfo_result w) host port) < FD_SETSIZE)
           (suspends_at_would_block (polls w)) (\<lambda>d. ledger d [] p) (last_event None p) e"
  using run_ok_split[OF main_ok assms] .

lemma run_ok_bounded:
  "run_ok inr sus H prev tr \<Longrightarrow> length (H d) \<le> 1 \<Longrightarrow> length (ledger d (H d) (take n tr)) \<le> 1"
proof (induction tr arbitrary: H prev n)
  case Nil
  then show ?case by (simp add: ledger_Nil)
next
  case (Cons e es)
  have "length (ledger_step d (H d) e) \<le> 1"
    using Cons.prems by (cases e) (auto simp: ev_ok_def split: if_splits option.splits)
  then have "length (ledger d (ledger_step d (H d) e) (take (n - 1) es)) \<le> 1"
    using Cons.IH[of "\<lambda>d. ledger_step d (H d) e" "Some e" "n - 1"] Cons.prems(1) by simp
  then show ?case
    using Cons.prems(2) by (cases n) (simp_all add: ledger_Nil ledger_Cons)
qed

text \<open>
  C1. Along the calls that any sequence of callbacks makes, from any connection, each
  direction has at most one live waker after every event, and at the end the live waker
  of a direction is the one in its slot. When a waker is registered, no waker of that
  direction is live any more: the one stored before has been freed. The bound also holds
  after every event of a whole run of either program, where the wait phase wakes and
  clears the slots between the polls.
\<close>

theorem one_live_waker_per_direction:
  "length (ledger d (slot_list d c) (take n (snd (run_callbacks h c cbs)))) \<le> 1
   \<and> ledger d (slot_list d c) (snd (run_callbacks h c cbs))
       = slot_list d (fst (run_callbacks h c cbs))
   \<and> (snd (run_callbacks h c cbs) = p @ ContextWaker d wk # rest
        \<longrightarrow> ledger d (slot_list d c) p = [])
   \<and> length (ledger d [] (take n (snd (main prog w)))) \<le> 1"
proof -
  have "length (ledger d [] (take n (snd (main prog w)))) \<le> 1"
    by (rule run_ok_bounded[OF main_ok]) simp
  then show ?thesis
    using run_callbacks_ledger_prefix[of d c _ h cbs] run_callbacks_ledger_end[of d c h cbs]
      ledger_registration[of d "slot_list d c" "snd (run_callbacks h c cbs)" p wk rest]
    by blast
qed

theorem one_live_waker_per_direction_witness:
  "snd (run_callbacks \<lparr>FLUXIO_IO_PENDING = 0xFFFFFFFF, FLUXIO_IO_ERROR = 0xFFFFFFFE\<rparr>
          \<lparr>fd = 4, read_waker = None, write_waker = None\<rparr>
          [CbCall Rd (Context 1) (- 1) EAGAIN, CbCall Rd (Context 2) (- 1) EAGAIN])
     = [Sys_read 4, ContextWaker Rd 1, Sys_read 4, WakerFree Rd 1] @ ContextWaker Rd 2 # []
   \<and> ledger Rd (slot_list Rd \<lparr>fd = 4, read_waker = None, write_waker = None\<rparr>)
         [Sys_read 4, ContextWaker Rd 1, Sys_read 4, WakerFree Rd 1] = []"
  using one_live_waker_per_direction[where d = Rd and n = 0 and wk = 2 and rest = "[]"
      and c = "\<lparr>fd = 4, read_waker = None, write_waker = None\<rparr>"
      and h = "\<lparr>FLUXIO_IO_PENDING = 0xFFFFFFFF, FLUXIO_IO_ERROR = 0xFFFFFFFE\<rparr>"
      and cbs = "[CbCall Rd (Context 1) (- 1) EAGAIN, CbCall Rd (Context 2) (- 1) EAGAIN]"
      and p = "[Sys_read 4, ContextWaker Rd 1, Sys_read 4, WakerFree Rd 1]"]
  by (simp add: read_cb_def word_sle_eq fluxio_context_waker_def slot_list_def)

section \<open>Properties of the upload producer\<close>


text \<open>
  C6. One poll of \<^verbatim>\<open>poll_req_upload\<close>. When the read returns more than zero bytes, the
  producer copies the bytes that were read into a new chunk, puts it in \<^verbatim>\<open>*chunk\<close> and
  returns \<^verbatim>\<open>FLUXIO_POLL_READY\<close>. When the read returns zero, it sets \<^verbatim>\<open>*chunk\<close> to
  \<^verbatim>\<open>NULL\<close> and returns \<^verbatim>\<open>FLUXIO_POLL_READY\<close>. When the read fails, it returns
  \<^verbatim>\<open>FLUXIO_POLL_ERROR\<close> and leaves \<^verbatim>\<open>*chunk\<close> as it was.
\<close>

theorem upload_producer_poll:
  "(0 < fst (sys_read (buf upload) (len upload) r) \<longrightarrow>
      fst (poll_req_upload upload chunk r) = FLUXIO_POLL_READY
      \<and> fst (snd (poll_req_upload upload chunk r))
          = Some (fluxio_buf_copy (fst (snd (sys_read (buf upload) (len upload) r)))
                    (nat (fst (sys_read (buf upload) (len upload) r))))
      \<and> (\<exists>avail. r = ReadBytes avail
            \<and> fst (snd (poll_req_upload upload chunk r)) = Some (take (len upload) avail)
            \<and> int (length (take (len upload) avail)) = fst (sys_read (buf upload) (len upload) r)))
   \<and> (fst (sys_read (buf upload) (len upload) r) = 0 \<longrightarrow>
      fst (poll_req_upload upload chunk r) = FLUXIO_POLL_READY
      \<and> fst (snd (poll_req_upload upload chunk r)) = None)
   \<and> (fst (sys_read (buf upload) (len upload) r) < 0 \<longrightarrow>
      fst (poll_req_upload upload chunk r) = FLUXIO_POLL_ERROR
      \<and> fst (snd (poll_req_upload upload chunk r)) = chunk)"
  by (cases r)
     (auto simp: poll_req_upload_def sys_read_def fluxio_buf_copy_def Let_def min_def)

theorem upload_producer_poll_witness:
  "0 < fst (sys_read ''xxxx'' 4 (ReadBytes ''hello''))
   \<and> poll_req_upload \<lparr>file_fd = 3, buf = ''xxxx'', len = 4\<rparr> None (ReadBytes ''hello'')
       = (FLUXIO_POLL_READY, Some ''hell'', \<lparr>file_fd = 3, buf = ''hell'', len = 4\<rparr>,
          [Sys_read 3, Call ''fluxio_buf_copy'' [PInt 4]])
   \<and> fst (sys_read ''xxxx'' 4 (ReadBytes [])) = 0
   \<and> poll_req_upload \<lparr>file_fd = 3, buf = ''xxxx'', len = 4\<rparr> (Some ''old'') (ReadBytes [])
       = (FLUXIO_POLL_READY, None, \<lparr>file_fd = 3, buf = ''xxxx'', len = 4\<rparr>, [Sys_read 3])
   \<and> fst (sys_read ''xxxx'' 4 (ReadFails 5)) < 0
   \<and> poll_req_upload \<lparr>file_fd = 3, buf = ''xxxx'', len = 4\<rparr> (Some ''old'') (ReadFails 5)
       = (FLUXIO_POLL_ERROR, Some ''old'', \<lparr>file_fd = 3, buf = ''xxxx'', len = 4\<rparr>,
          [Sys_read 3, Printf ''error reading upload file: %d'' [PInt 5]])"
  using
    upload_producer_poll[where upload = "\<lparr>file_fd = 3, buf = ''xxxx'', len = 4\<rparr>"
      and chunk = None and r = "ReadBytes ''hello''"]
    upload_producer_poll[where upload = "\<lparr>file_fd = 3, buf = ''xxxx'', len = 4\<rparr>"
      and chunk = "Some ''old''" and r = "ReadBytes []"]
    upload_producer_poll[where upload = "\<lparr>file_fd = 3, buf = ''xxxx'', len = 4\<rparr>"
      and chunk = "Some ''old''" and r = "ReadFails 5"]
  by (simp add: poll_req_upload_def sys_read_def fluxio_buf_copy_def)







section \<open>What follows a finished task\<close>

lemma task_type_payload:
  "fluxio_task_type t = FLUXIO_TASK_ERROR \<longleftrightarrow> (\<exists>e. payload t = OutError e)"
  "fluxio_task_type t = FLUXIO_TASK_EMPTY \<longleftrightarrow> payload t = OutEmpty"
  "fluxio_task_type t = FLUXIO_TASK_CLIENTCONN \<longleftrightarrow> (\<exists>c. payload t = OutClientconn c)"
  "fluxio_task_type t = FLUXIO_TASK_RESPONSE \<longleftrightarrow> (\<exists>r. payload t = OutResponse r)"
  "fluxio_task_type t = FLUXIO_TASK_BUF \<longleftrightarrow> (\<exists>b. payload t = OutBuf b)"
  by (cases "payload t"; simp)+

lemma after_each_split:
  "after_each Q tr \<Longrightarrow> tr = p @ e # rest \<Longrightarrow> Q e rest"
  by (induction p arbitrary: tr) auto

lemma after_each_trivial:
  "(\<And>e r. e \<in> set xs \<Longrightarrow> Q e r) \<Longrightarrow> after_each Q (xs @ ys) = after_each Q ys"
  by (induction xs) auto

lemma after_each_extend:
  "after_each Q1 xs \<Longrightarrow> (\<And>e r. Q1 e r \<Longrightarrow> Q2 e (r @ ys)) \<Longrightarrow> after_each Q2 ys
     \<Longrightarrow> after_each Q2 (xs @ ys)"
  by (induction xs) auto

lemma not_poll_dispatched: "\<not> is_poll e \<Longrightarrow> dispatched prog w out e r"
  by (cases e) (simp_all add: is_poll_def dispatched_def)

lemma dispatched_None: "dispatched prog w out (ExecutorPoll None) r"
  by (simp add: dispatched_def)

lemma run_callbacks_no_poll: "\<forall>e \<in> set (snd (run_callbacks h c cbs)). \<not> is_poll e"
proof (induction cbs arbitrary: c)
  case Nil
  show ?case by simp
next
  case (Cons cb cbs)
  obtain d ctx ret errno where cb: "cb = CbCall d ctx ret errno"
    by (cases cb)
  have "\<forall>e \<in> set (snd (run_callback h c cb)). \<not> is_poll e"
    unfolding cb run_callback_events
    by (cases d) (auto simp: is_poll_def)
  then show ?case
    using Cons.IH[of "fst (run_callback h c cb)"] by (auto simp: split_beta)
qed

lemma foreach_no_poll: "\<forall>e \<in> set (fluxio_headers_foreach hs). \<not> is_poll e"
  by (auto simp: fluxio_headers_foreach_def print_each_header_def is_poll_def)

lemma free_conn_data_no_poll: "\<forall>e \<in> set (free_conn_data c). \<not> is_poll e"
  by (auto simp: free_conn_data_def is_poll_def split: option.splits)

lemma dispatch_no_poll: "\<forall>e \<in> set (snd (dispatch prog w st t)). \<not> is_poll e"
  using foreach_no_poll free_conn_data_no_poll[of "conn st"]
  by (cases prog; cases "userdata t"; cases "payload t")
     (auto simp: client_dispatch_def upload_dispatch_def Let_def fail_def is_poll_def)

lemma wait_phase_no_poll: "\<forall>e \<in> set (snd (wait_phase st s)). \<not> is_poll e"
  unfolding wait_phase_events by (auto simp: select_call_def split_beta is_poll_def)

lemma dispatched_weaken:
  "dispatched prog w None e r \<Longrightarrow> dispatched prog w out e (r @ ys)"
  unfolding dispatched_def
  by (cases e) (auto split: option.splits ctl.splits, (metis append.assoc ctl.exhaust)+)

lemma drain_dispatched:
  "drain prog w ps st = (r, tr) \<Longrightarrow>
     after_each (dispatched prog w (case r of Stopped out \<Rightarrow> Some out | Drained st1 ps1 \<Rightarrow> None)) tr"
proof (induction ps arbitrary: st r tr)
  case Nil
  then show ?case by auto
next
  case (Cons p ps)
  let ?o = "case r of Stopped out \<Rightarrow> Some out | Drained st1 ps1 \<Rightarrow> None"
  obtain c1 e1 where cb: "run_callbacks (hdr w) (conn st) (callbacks p) = (c1, e1)"
    by (cases "run_callbacks (hdr w) (conn st) (callbacks p)")
  have e1: "\<And>e x. e \<in> set e1 \<Longrightarrow> dispatched prog w ?o e x"
    using run_callbacks_no_poll[of "hdr w" "conn st" "callbacks p"] cb not_poll_dispatched
    by fastforce
  show ?case
  proof (cases "returned p")
    case None
    then have "tr = e1 @ [ExecutorPoll None]"
      using Cons.prems cb by auto
    then show ?thesis
      using e1 by (simp add: after_each_trivial dispatched_None)
  next
    case (Some task)
    obtain ct e2 where d: "dispatch prog w (st\<lparr>conn := c1\<rparr>) task = (ct, e2)"
      by (cases "dispatch prog w (st\<lparr>conn := c1\<rparr>) task")
    have e2: "\<And>e x. e \<in> set e2 \<Longrightarrow> dispatched prog w ?o e x"
      using dispatch_no_poll[of prog w "st\<lparr>conn := c1\<rparr>" task] d not_poll_dispatched
      by fastforce
    show ?thesis
    proof (cases ct)
      case (Continue st2)
      obtain r3 e3 where d3: "drain prog w ps st2 = (r3, e3)"
        by (cases "drain prog w ps st2")
      have rt: "r = r3" "tr = e1 @ ExecutorPoll (Some task) # e2 @ e3"
        using Cons.prems cb Some d Continue d3 by auto
      have "dispatched prog w ?o (ExecutorPoll (Some task)) (e2 @ e3)"
        unfolding dispatched_def using d Continue
        by (auto intro!: exI[of _ "st\<lparr>conn := c1\<rparr>"])
      moreover have "after_each (dispatched prog w ?o) e3"
        using Cons.IH[OF d3] rt(1) by simp
      ultimately show ?thesis
        unfolding rt(2) using e1 e2 by (simp add: after_each_trivial)
    next
      case (Return x)
      then have rt: "r = Stopped (Exit x)" "tr = e1 @ ExecutorPoll (Some task) # e2"
        using Cons.prems cb Some d by auto
      have "dispatched prog w ?o (ExecutorPoll (Some task)) e2"
        unfolding dispatched_def using d Return rt(1)
        by (auto intro!: exI[of _ "st\<lparr>conn := c1\<rparr>"])
      then show ?thesis
        unfolding rt(2) using e1 e2 after_each_trivial[of e2 _ "[]"]
        by (simp add: after_each_trivial)
    next
      case AssertionFailed
      then have rt: "r = Stopped Aborted" "tr = e1 @ ExecutorPoll (Some task) # e2"
        using Cons.prems cb Some d by auto
      have "dispatched prog w ?o (ExecutorPoll (Some task)) e2"
        unfolding dispatched_def using d AssertionFailed rt(1)
        by (auto intro!: exI[of _ "st\<lparr>conn := c1\<rparr>"])
      then show ?thesis
        unfolding rt(2) using e1 e2 after_each_trivial[of e2 _ "[]"]
        by (simp add: after_each_trivial)
    qed
  qed
qed

lemma main_loop_dispatched:
  "main_loop prog w ps ss st = (out, tr) \<Longrightarrow> after_each (dispatched prog w (Some out)) tr"
proof (induction ss arbitrary: ps st out tr)
  case Nil
  obtain r tr1 where d: "drain prog w ps st = (r, tr1)"
    by (cases "drain prog w ps st")
  show ?case
  proof (cases r)
    case (Stopped o1)
    then show ?thesis
      using drain_dispatched[OF d] d Nil.prems by simp
  next
    case (Drained st1 ps1)
    then have tr: "tr = tr1 @ [select_call st1]"
      using d Nil.prems by simp
    have "after_each (dispatched prog w None) tr1"
      using drain_dispatched[OF d] Drained by simp
    then show ?thesis
      unfolding tr
    proof (rule after_each_extend)
      show "\<And>e r. dispatched prog w None e r
              \<Longrightarrow> dispatched prog w (Some out) e (r @ [select_call st1])"
        by (rule dispatched_weaken)
      show "after_each (dispatched prog w (Some out)) [select_call st1]"
        by (simp add: select_call_def split_beta dispatched_def)
    qed
  qed
next
  case (Cons s ss)
  obtain r tr1 where d: "drain prog w ps st = (r, tr1)"
    by (cases "drain prog w ps st")
  show ?case
  proof (cases r)
    case (Stopped o1)
    then show ?thesis
      using drain_dispatched[OF d] d Cons.prems by simp
  next
    case (Drained st1 ps1)
    obtain x e where wp: "wait_phase st1 s = (x, e)"
      by (cases "wait_phase st1 s")
    have e: "\<And>ev y. ev \<in> set e \<Longrightarrow> dispatched prog w (Some out) ev y"
      using wait_phase_no_poll[of st1 s] wp not_poll_dispatched by fastforce
    have d1: "after_each (dispatched prog w None) tr1"
      using drain_dispatched[OF d] Drained by simp
    show ?thesis
    proof (cases x)
      case None
      then have tr: "tr = tr1 @ e"
        using d Drained wp Cons.prems by simp
      have "after_each (dispatched prog w (Some out)) e"
        using e after_each_trivial[of e _ "[]"] by simp
      with d1 show ?thesis
        unfolding tr using dispatched_weaken by (blast intro: after_each_extend)
    next
      case (Some st2)
      obtain o2 tr2 where m: "main_loop prog w ps1 ss st2 = (o2, tr2)"
        by (cases "main_loop prog w ps1 ss st2")
      have tr: "out = o2" "tr = tr1 @ e @ tr2"
        using d Drained wp Some m Cons.prems by simp_all
      have "after_each (dispatched prog w (Some out)) (e @ tr2)"
        using Cons.IH[OF m] e tr(1) by (simp add: after_each_trivial)
      with d1 show ?thesis
        unfolding tr(2) using dispatched_weaken by (blast intro: after_each_extend)
    qed
  qed
qed

lemma is_setup_no_poll: "is_setup e \<Longrightarrow> \<not> is_poll e"
  by (cases e) (simp_all add: is_setup_def is_poll_def)

lemma main_dispatched:
  assumes "main prog w = (out, tr)"
  shows "after_each (dispatched prog w (Some out)) tr"
proof -
  obtain pre where pre: "\<forall>e \<in> set pre. is_setup e"
    and m: "main prog w = (Exit 1, pre)
        \<or> (\<exists>x. main prog w =
              (fst (main_loop prog w (polls w) (selects w) (initial_state w x)),
               pre @ snd (main_loop prog w (polls w) (selects w) (initial_state w x))))"
    using main_shape[of prog w] by blast
  have n: "\<And>e r. e \<in> set pre \<Longrightarrow> dispatched prog w (Some out) e r"
    using pre is_setup_no_poll not_poll_dispatched by blast
  from m show ?thesis
  proof
    assume "main prog w = (Exit 1, pre)"
    then show ?thesis
      using assms n after_each_trivial[of pre _ "[]"] by simp
  next
    assume "\<exists>x. main prog w =
              (fst (main_loop prog w (polls w) (selects w) (initial_state w x)),
               pre @ snd (main_loop prog w (polls w) (selects w) (initial_state w x)))"
    then obtain x tr2 where x: "main_loop prog w (polls w) (selects w) (initial_state w x) = (out, tr2)"
       "tr = pre @ tr2"
      using assms by (metis prod.collapse prod.inject)
    show ?thesis
      unfolding x(2) using main_loop_dispatched[OF x(1)] n by (simp add: after_each_trivial)
  qed
qed

lemma main_poll:
  assumes "main prog w = (out, tr)" and "tr = p @ ExecutorPoll (Some t) # rest"
  shows "\<exists>st rest'. rest = snd (dispatch prog w st t) @ rest'
           \<and> (case fst (dispatch prog w st t) of
                 Continue st' \<Rightarrow> True
               | Return c \<Rightarrow> rest' = [] \<and> out = Exit c
               | AssertionFailed \<Rightarrow> rest' = [] \<and> out = Aborted)"
  using after_each_split[OF main_dispatched[OF assms(1)] assms(2)]
  unfolding dispatched_def by (simp split: ctl.splits) blast

lemma dispatch_error:
  assumes "payload t = OutError e" and "userdata t \<noteq> EXAMPLE_NOT_SET"
  shows "dispatch prog w st t =
           (Return 1, Printf (phase_message (userdata t)) []
                        # (case prog of Client \<Rightarrow> fail (Some e) | Upload \<Rightarrow> []))"
  using assms
  by (cases prog; cases "userdata t") (simp_all add: client_dispatch_def upload_dispatch_def)



lemma main_error:
  assumes "main prog w = (out, tr)" and "tr = p @ ExecutorPoll (Some t) # rest"
    and "payload t = OutError e" and "userdata t \<noteq> EXAMPLE_NOT_SET"
  shows "out = Exit 1
     \<and> rest = Printf (phase_message (userdata t)) []
                # (case prog of Client \<Rightarrow> fail (Some e) | Upload \<Rightarrow> [])"
  using main_poll[OF assms(1,2)] dispatch_error[OF assms(3,4), of prog w]
  by auto





lemma is_setup_no_send: "is_setup e \<Longrightarrow> \<not> is_send e"
  by (cases e) (auto simp: is_setup_def is_send_def)

lemma run_callbacks_no_send: "\<forall>e \<in> set (snd (run_callbacks h c cbs)). \<not> is_send e"
proof (induction cbs arbitrary: c)
  case Nil
  show ?case by simp
next
  case (Cons cb cbs)
  obtain d ctx ret errno where cb: "cb = CbCall d ctx ret errno"
    by (cases cb)
  have "\<forall>e \<in> set (snd (run_callback h c cb)). \<not> is_send e"
    unfolding cb run_callback_events
    by (cases d) (auto simp: is_send_def)
  then show ?case
    using Cons.IH[of "fst (run_callback h c cb)"] by (auto simp: split_beta)
qed

lemma wait_phase_no_send: "\<forall>e \<in> set (snd (wait_phase st s)). \<not> is_send e"
  unfolding wait_phase_events by (auto simp: select_call_def split_beta is_send_def)

lemma foreach_no_send: "\<forall>e \<in> set (fluxio_headers_foreach hs). \<not> is_send e"
  by (auto simp: fluxio_headers_foreach_def print_each_header_def is_send_def)

lemma free_conn_data_no_send: "\<forall>e \<in> set (free_conn_data c). \<not> is_send e"
  by (auto simp: free_conn_data_def is_send_def split: option.splits)

lemma dispatch_send:
  assumes "ev \<in> set (snd (dispatch prog w st t))" and "is_send ev"
  shows "userdata t = EXAMPLE_HANDSHAKE \<and> (\<exists>c. payload t = OutClientconn c)"
  using assms foreach_no_send free_conn_data_no_send[of "conn st"]
  by (cases prog; cases "userdata t"; cases "payload t")
     (auto simp: client_dispatch_def upload_dispatch_def Let_def fail_def is_send_def
           split: if_splits)

lemma drain_send:
  "drain prog w ps st = (r, tr) \<Longrightarrow> ev \<in> set tr \<Longrightarrow> is_send ev \<Longrightarrow>
     \<exists>t. ExecutorPoll (Some t) \<in> set tr \<and> handshake_ok t"
proof (induction ps arbitrary: st r tr)
  case Nil
  then show ?case by simp
next
  case (Cons p ps)
  obtain c1 e1 where cb: "run_callbacks (hdr w) (conn st) (callbacks p) = (c1, e1)"
    by (cases "run_callbacks (hdr w) (conn st) (callbacks p)")
  have e1: "ev \<notin> set e1"
    using run_callbacks_no_send[of "hdr w" "conn st" "callbacks p"] cb Cons.prems(3) by auto
  have np: "ev \<noteq> ExecutorPoll x" for x
    using Cons.prems(3) by (auto simp: is_send_def)
  show ?case
  proof (cases "returned p")
    case None
    then show ?thesis
      using Cons.prems cb e1 np by auto
  next
    case (Some task)
    obtain ct e2 where d: "dispatch prog w (st\<lparr>conn := c1\<rparr>) task = (ct, e2)"
      by (cases "dispatch prog w (st\<lparr>conn := c1\<rparr>) task")
    have e2: "ev \<in> set e2 \<Longrightarrow> handshake_ok task"
      using dispatch_send[of ev prog w "st\<lparr>conn := c1\<rparr>" task] d Cons.prems(3)
      by (simp add: handshake_ok_def)
    show ?thesis
    proof (cases ct)
      case (Continue st2)
      obtain r3 e3 where d3: "drain prog w ps st2 = (r3, e3)"
        by (cases "drain prog w ps st2")
      have tr: "tr = e1 @ ExecutorPoll (Some task) # e2 @ e3"
        using Cons.prems cb Some d Continue d3 by auto
      then consider "ev \<in> set e2" | "ev \<in> set e3"
        using Cons.prems(2) e1 np by auto
      then show ?thesis
      proof cases
        case 1
        then show ?thesis using e2 tr by auto
      next
        case 2
        then show ?thesis using Cons.IH[OF d3 _ Cons.prems(3)] tr by auto
      qed
    next
      case (Return x)
      then have "tr = e1 @ ExecutorPoll (Some task) # e2"
        using Cons.prems cb Some d by auto
      then show ?thesis
        using Cons.prems(2) e1 e2 np by auto
    next
      case AssertionFailed
      then have "tr = e1 @ ExecutorPoll (Some task) # e2"
        using Cons.prems cb Some d by auto
      then show ?thesis
        using Cons.prems(2) e1 e2 np by auto
    qed
  qed
qed

lemma main_loop_send:
  "main_loop prog w ps ss st = (out, tr) \<Longrightarrow> ev \<in> set tr \<Longrightarrow> is_send ev \<Longrightarrow>
     \<exists>t. ExecutorPoll (Some t) \<in> set tr \<and> handshake_ok t"
proof (induction ss arbitrary: ps st out tr)
  case Nil
  obtain r tr1 where d: "drain prog w ps st = (r, tr1)"
    by (cases "drain prog w ps st")
  have "ev \<noteq> select_call c" for c
    using Nil.prems(3) by (auto simp: is_send_def select_call_def split_beta)
  then show ?case
    using Nil.prems d drain_send[OF d, of ev]
    by (cases r) auto
next
  case (Cons s ss)
  obtain r tr1 where d: "drain prog w ps st = (r, tr1)"
    by (cases "drain prog w ps st")
  show ?case
  proof (cases r)
    case (Stopped o1)
    then show ?thesis
      using Cons.prems d drain_send[OF d, of ev] by auto
  next
    case (Drained st1 ps1)
    obtain x e where wp: "wait_phase st1 s = (x, e)"
      by (cases "wait_phase st1 s")
    have e: "ev \<notin> set e"
      using wait_phase_no_send[of st1 s] wp Cons.prems(3) by auto
    show ?thesis
    proof (cases x)
      case None
      then have "tr = tr1 @ e"
        using d Drained wp Cons.prems by simp
      then show ?thesis
        using Cons.prems(2) e drain_send[OF d, of ev] Cons.prems(3) by auto
    next
      case (Some st2)
      obtain o2 tr2 where m: "main_loop prog w ps1 ss st2 = (o2, tr2)"
        by (cases "main_loop prog w ps1 ss st2")
      have tr: "tr = tr1 @ e @ tr2"
        using d Drained wp Some m Cons.prems by simp
      then consider "ev \<in> set tr1" | "ev \<in> set tr2"
        using Cons.prems(2) e by auto
      then show ?thesis
      proof cases
        case 1
        then show ?thesis using drain_send[OF d _ Cons.prems(3)] tr by auto
      next
        case 2
        then show ?thesis using Cons.IH[OF m _ Cons.prems(3)] tr by auto
      qed
    qed
  qed
qed

lemma main_send:
  assumes "main prog w = (out, tr)" and "ev \<in> set tr" and "is_send ev"
  shows "\<exists>t. ExecutorPoll (Some t) \<in> set tr \<and> handshake_ok t"
proof -
  obtain pre where pre: "\<forall>e \<in> set pre. is_setup e"
    and m: "main prog w = (Exit 1, pre)
        \<or> (\<exists>x. main prog w =
              (fst (main_loop prog w (polls w) (selects w) (initial_state w x)),
               pre @ snd (main_loop prog w (polls w) (selects w) (initial_state w x))))"
    using main_shape[of prog w] by blast
  have n: "ev \<notin> set pre"
    using pre is_setup_no_send assms(3) by blast
  from m show ?thesis
  proof
    assume "main prog w = (Exit 1, pre)"
    then show ?thesis
      using assms n by simp
  next
    assume "\<exists>x. main prog w =
              (fst (main_loop prog w (polls w) (selects w) (initial_state w x)),
               pre @ snd (main_loop prog w (polls w) (selects w) (initial_state w x)))"
    then obtain x tr2 where x: "main_loop prog w (polls w) (selects w) (initial_state w x) = (out, tr2)"
       "tr = pre @ tr2"
      using assms by (metis prod.collapse prod.inject)
    show ?thesis
      using main_loop_send[OF x(1) _ assms(3)] x(2) assms(2) n by auto
  qed
qed


section \<open>The result of a write to standard output\<close>




section \<open>The example runs\<close>

lemmas run_simps =
  base_world_def client_main_def upload_main_def connect_to_def arg_def hookup_def Let_def
  client_dispatch_def upload_dispatch_def read_cb_def write_cb_def word_sle_eq EAGAIN_def
  wait_phase_def select_def select_call_def split_beta build_sets_def FD_ZERO_def FD_SET_def FD_ISSET_def
  FD_SETSIZE_def write_stdout_def free_conn_data_def fluxio_context_waker_def
  fluxio_headers_foreach_def print_each_header_def fail_def fluxio_error_print_def

lemma run_send_error:
  "main Upload world_send_error =
     (Exit 1,
      upload_setup @ ExecutorPoll (Some handshake_done) # upload_request
        @ [Sys_write 4, ContextWaker Wr 10, Sys_read 4, ContextWaker Rd 11, ExecutorPoll None,
           Select True True, WakerWake Rd (Some 11), Sys_read 4,
           ExecutorPoll (Some send_failed), Printf ''send error!\<newline>'' []])"
  by (simp add: world_send_error_def handshake_done_def send_failed_def upload_setup_def
        upload_setup_at_def upload_request_def run_simps)

lemma run_blocked:
  "main Client world_blocked =
     (Running, client_setup @ [Sys_read 4, ContextWaker Rd 11, ExecutorPoll None, Select True False])"
  by (simp add: world_blocked_def client_setup_def run_simps)

lemma run_wake:
  "main Client world_wake =
     (Running,
      client_setup @ [Sys_read 4, ContextWaker Rd 11, ExecutorPoll None, Select True False,
                      WakerWake Rd (Some 11)])"
  by (simp add: world_wake_def client_setup_def run_simps)

lemma run_handshake_error:
  "main Client world_handshake_error =
     (Exit 1,
      client_setup
        @ [ExecutorPoll (Some handshake_failed),
           Printf ''handshake error!\<newline>'' [],
           Printf ''error code: %d\<newline>'' [PInt 4],
           Printf ''details: %.*s\<newline>'' [PInt 7, PStr ''refused''],
           ErrorFree \<lparr>error_code = 4, error_text = ''refused''\<rparr>])"
  by (simp add: world_handshake_error_def handshake_failed_def client_setup_def run_simps)


lemma run_high_fd:
  "main Upload world_high_fd =
     (Running,
      upload_setup_at 1024 @ ExecutorPoll (Some handshake_done) # upload_request
        @ [Sys_write 1024, Sys_read 1024, ContextWaker Rd 11, ExecutorPoll None,
           Select True False, WakerWake Rd (Some 11),
           Sys_read 1024, Sys_write 1024, ContextWaker Wr 13, ExecutorPoll None,
           Select True True, WakerWake Rd None])"
  by (simp add: world_high_fd_def handshake_done_def upload_setup_at_def upload_request_def
        run_simps)


section \<open>Properties of the executor loop and the dispatcher\<close>

text \<open>
  C2. In every run of either program, the call right before a call of \<^verbatim>\<open>select\<close> is a
  \<^verbatim>\<open>fluxio_executor_poll\<close> that returned \<^verbatim>\<open>NULL\<close>: the inner loop has polled until no
  task was left, and nothing was pushed or woken between that poll and the wait.
\<close>

theorem drain_before_wait:
  "snd (main prog w) = p @ Select r x # rest \<Longrightarrow> p \<noteq> [] \<and> last p = ExecutorPoll None"
  using main_event[where prog = prog and w = w and p = p and e = "Select r x" and rest = rest
      and host = "[]" and port = "[]"]
  by (auto simp: ev_ok_def last_event_def split: if_splits)

theorem drain_before_wait_witness:
  "snd (main Client world_blocked)
     = (client_setup @ [Sys_read 4, ContextWaker Rd 11, ExecutorPoll None]) @ Select True False # []
   \<and> client_setup @ [Sys_read 4, ContextWaker Rd 11, ExecutorPoll None] \<noteq> []
   \<and> last (client_setup @ [Sys_read 4, ContextWaker Rd 11, ExecutorPoll None]) = ExecutorPoll None"
  using drain_before_wait[where prog = Client and w = world_blocked and r = True and x = False
      and p = "client_setup @ [Sys_read 4, ContextWaker Rd 11, ExecutorPoll None]" and rest = "[]"]
    run_blocked
  by simp

text \<open>
  C4, as the code has it. \<^verbatim>\<open>select\<close> is called only right after a poll that returned no
  task. The code does not look at the slots before it waits; that a waker is live then
  follows from the engine: when it suspends tasks only at transfers that would block, a
  direction has a live waker at every call of \<^verbatim>\<open>select\<close>. The descriptor is in the set of
  every direction that has a live waker. When the descriptor is below \<^verbatim>\<open>FD_SETSIZE\<close>
  it is in no other set: it is in the read set exactly when a read waker is live, and in
  the write set exactly when a write waker is live.
\<close>

theorem select_interest_set:
  "(snd (main prog w) = p @ Select r x # rest \<longrightarrow>
      p \<noteq> [] \<and> last p = ExecutorPoll None
      \<and> (ledger Rd [] p \<noteq> [] \<longrightarrow> r) \<and> (ledger Wr [] p \<noteq> [] \<longrightarrow> x)
      \<and> (suspends_at_would_block (polls w) \<longrightarrow> ledger Rd [] p \<noteq> [] \<or> ledger Wr [] p \<noteq> [])
      \<and> (fst (connect_to (getaddrinfo_result w) host port) < FD_SETSIZE \<longrightarrow>
            r = (ledger Rd [] p \<noteq> []) \<and> x = (ledger Wr [] p \<noteq> [])))
   \<and> (0 \<le> fd (conn st) \<and> fd (conn st) < FD_SETSIZE \<longrightarrow>
        hd (snd (wait_phase st s))
          = Select (read_waker (conn st) \<noteq> None) (write_waker (conn st) \<noteq> None))"
proof -
  have "hd (snd (wait_phase st s))
          = Select (read_waker (conn st) \<noteq> None) (write_waker (conn st) \<noteq> None)"
    if "0 \<le> fd (conn st)" "fd (conn st) < FD_SETSIZE"
    using that by (simp add: wait_phase_events select_call_def split_beta build_sets_range)
  then show ?thesis
    using main_event[where prog = prog and w = w and p = p and e = "Select r x" and rest = rest
        and host = host and port = port]
    by (auto simp: ev_ok_def last_event_def split: if_splits)
qed

theorem select_interest_set_witness:
  "snd (main Upload world_send_error)
     = (upload_setup @ ExecutorPoll (Some handshake_done) # upload_request
          @ [Sys_write 4, ContextWaker Wr 10, Sys_read 4, ContextWaker Rd 11, ExecutorPoll None])
        @ Select True True
        # [WakerWake Rd (Some 11), Sys_read 4, ExecutorPoll (Some send_failed),
           Printf ''send error!\<newline>'' []]
   \<and> suspends_at_would_block (polls world_send_error)
   \<and> fst (connect_to (getaddrinfo_result world_send_error) ''httpbin.org'' ''80'') < FD_SETSIZE
   \<and> ledger Rd []
        (upload_setup @ ExecutorPoll (Some handshake_done) # upload_request
          @ [Sys_write 4, ContextWaker Wr 10, Sys_read 4, ContextWaker Rd 11, ExecutorPoll None])
       = [11]
   \<and> ledger Wr []
        (upload_setup @ ExecutorPoll (Some handshake_done) # upload_request
          @ [Sys_write 4, ContextWaker Wr 10, Sys_read 4, ContextWaker Rd 11, ExecutorPoll None])
       = [10]
   \<and> hd (snd (wait_phase
        \<lparr>conn = \<lparr>fd = 4, read_waker = Some 11, write_waker = None\<rparr>, resp_body = None,
         fds_read = True, fds_write = True\<rparr>
        \<lparr>sel_ret = 1, read_ready = True, write_ready = False\<rparr>))
       = Select True False"
  using select_interest_set[where prog = Upload and w = world_send_error and r = True and x = True
      and p = "upload_setup @ ExecutorPoll (Some handshake_done) # upload_request
          @ [Sys_write 4, ContextWaker Wr 10, Sys_read 4, ContextWaker Rd 11, ExecutorPoll None]"
      and rest = "[WakerWake Rd (Some 11), Sys_read 4, ExecutorPoll (Some send_failed),
           Printf ''send error!\<newline>'' []]"
      and host = "''httpbin.org''" and port = "''80''"
      and st = "\<lparr>conn = \<lparr>fd = 4, read_waker = Some 11, write_waker = None\<rparr>, resp_body = None,
         fds_read = True, fds_write = True\<rparr>"
      and s = "\<lparr>sel_ret = 1, read_ready = True, write_ready = False\<rparr>"]
    run_send_error
  by (simp add: ledger_def upload_setup_def upload_setup_at_def upload_request_def
        world_send_error_def base_world_def suspends_at_would_block_def word_sle_eq
        connect_to_def FD_SETSIZE_def)

text \<open>
  C4 as it is stated fails: in this run of upload.c the socket is descriptor 1024. The
  first \<^verbatim>\<open>select\<close> reports it readable, which leaves its bit set behind the read set, where
  \<^verbatim>\<open>FD_ZERO\<close> does not reach. The next poll reads, then a write would block: at the
  second \<^verbatim>\<open>select\<close> only a write waker is live, and the descriptor is in the read set
  all the same. Every poll of the run that returned no task had a transfer that would
  block.
\<close>

theorem select_with_stale_descriptor:
  "snd (main Upload world_high_fd)
     = (upload_setup_at 1024 @ ExecutorPoll (Some handshake_done) # upload_request
          @ [Sys_write 1024, Sys_read 1024, ContextWaker Rd 11, ExecutorPoll None,
             Select True False, WakerWake Rd (Some 11),
             Sys_read 1024, Sys_write 1024, ContextWaker Wr 13, ExecutorPoll None])
        @ Select True True # [WakerWake Rd None]
   \<and> ledger Rd []
        (upload_setup_at 1024 @ ExecutorPoll (Some handshake_done) # upload_request
          @ [Sys_write 1024, Sys_read 1024, ContextWaker Rd 11, ExecutorPoll None,
             Select True False, WakerWake Rd (Some 11),
             Sys_read 1024, Sys_write 1024, ContextWaker Wr 13, ExecutorPoll None])
       = []
   \<and> suspends_at_would_block (polls world_high_fd)"
  using run_high_fd
  by (simp add: ledger_def upload_setup_at_def upload_request_def world_high_fd_def
        base_world_def suspends_at_would_block_def word_sle_eq)

text \<open>
  C10, as the code has it. In every run whose descriptor is below \<^verbatim>\<open>FD_SETSIZE\<close>,
  \<^verbatim>\<open>fluxio_waker_wake\<close> is never called on \<^verbatim>\<open>NULL\<close>: the waker it gets is the one live
  waker of its direction, and after the call no waker of that direction is live. Inside
  one wait phase on such a descriptor, a direction is woken only when its slot was not
  empty (so its descriptor was in the set) and \<^verbatim>\<open>select\<close> reported it ready; the waker
  woken is the one in the slot, and the slot is \<^verbatim>\<open>NULL\<close> when the phase ends.
\<close>

theorem wake_only_live_waker:
  "(fst (connect_to (getaddrinfo_result w) host port) < FD_SETSIZE
      \<and> snd (main prog w) = p @ WakerWake d x # rest \<longrightarrow>
      (\<exists>wk. x = Some wk \<and> ledger d [] p = [wk]) \<and> ledger d [] (p @ [WakerWake d x]) = [])
   \<and> (0 \<le> fd (conn st) \<and> fd (conn st) < FD_SETSIZE
      \<and> wait_phase st s = (r, es) \<and> WakerWake d x \<in> set es \<longrightarrow>
      x = slot d (conn st) \<and> x \<noteq> None \<and> 0 \<le> sel_ret s
      \<and> (case d of Rd \<Rightarrow> read_ready s | Wr \<Rightarrow> write_ready s)
      \<and> (\<exists>st2. r = Some st2 \<and> slot d (conn st2) = None))"
proof -
  have "ledger d [] (p @ [WakerWake d x]) = []" if "x = Some wk" "ledger d [] p = [wk]" for wk
    using that by (simp add: ledger_append ledger_Cons ledger_Nil)
  moreover have "x = slot d (conn st) \<and> x \<noteq> None \<and> 0 \<le> sel_ret s
      \<and> (case d of Rd \<Rightarrow> read_ready s | Wr \<Rightarrow> write_ready s)
      \<and> (\<exists>st2. r = Some st2 \<and> slot d (conn st2) = None)"
    if "0 \<le> fd (conn st)" "fd (conn st) < FD_SETSIZE"
      "wait_phase st s = (r, es)" "WakerWake d x \<in> set es"
    using that
    by (cases d)
       (auto simp: wait_phase_def select_def select_call_def build_sets_range FD_ISSET_def Let_def
             split: if_splits)
  ultimately show ?thesis
    using main_event[where prog = prog and w = w and p = p and e = "WakerWake d x"
        and rest = rest and host = host and port = port]
    by (auto simp: ev_ok_def split: option.splits)
qed

theorem wake_only_live_waker_witness:
  "fst (connect_to (getaddrinfo_result world_wake) ''httpbin.org'' ''80'') < FD_SETSIZE
   \<and> snd (main Client world_wake)
     = (client_setup @ [Sys_read 4, ContextWaker Rd 11, ExecutorPoll None, Select True False])
        @ WakerWake Rd (Some 11) # []
   \<and> ledger Rd []
        (client_setup @ [Sys_read 4, ContextWaker Rd 11, ExecutorPoll None, Select True False])
       = [11]
   \<and> wait_phase
        \<lparr>conn = \<lparr>fd = 4, read_waker = Some 11, write_waker = None\<rparr>, resp_body = None,
         fds_read = False, fds_write = False\<rparr>
        \<lparr>sel_ret = 1, read_ready = True, write_ready = False\<rparr>
       = (Some \<lparr>conn = \<lparr>fd = 4, read_waker = None, write_waker = None\<rparr>, resp_body = None,
                fds_read = True, fds_write = False\<rparr>,
          [Select True False, WakerWake Rd (Some 11)])
   \<and> WakerWake Rd (Some 11) \<in> set [Select True False, WakerWake Rd (Some 11)]
   \<and> slot Rd \<lparr>fd = 4, read_waker = None, write_waker = None\<rparr> = None"
  using wake_only_live_waker[where prog = Client and w = world_wake and d = Rd and x = "Some 11"
      and p = "client_setup @ [Sys_read 4, ContextWaker Rd 11, ExecutorPoll None, Select True False]"
      and rest = "[]" and host = "''httpbin.org''" and port = "''80''"
      and st = "\<lparr>conn = \<lparr>fd = 4, read_waker = Some 11, write_waker = None\<rparr>, resp_body = None,
         fds_read = False, fds_write = False\<rparr>"
      and s = "\<lparr>sel_ret = 1, read_ready = True, write_ready = False\<rparr>"
      and r = "Some \<lparr>conn = \<lparr>fd = 4, read_waker = None, write_waker = None\<rparr>, resp_body = None,
                fds_read = True, fds_write = False\<rparr>"
      and es = "[Select True False, WakerWake Rd (Some 11)]"]
    run_wake
  by (simp add: wait_phase_def select_def select_call_def build_sets_def FD_ZERO_def FD_SET_def
        FD_ISSET_def FD_SETSIZE_def ledger_def client_setup_def world_wake_def base_world_def
        connect_to_def)

text \<open>
  C10 as it is stated fails: in the run of upload.c on descriptor 1024, the bit that the
  first \<^verbatim>\<open>select\<close> left behind the read set is still set at the second, \<^verbatim>\<open>select\<close>
  reports the descriptor readable again, and \<^verbatim>\<open>fluxio_waker_wake\<close> is called on the read
  slot, which has been \<^verbatim>\<open>NULL\<close> since the first wake.
\<close>

theorem wake_on_empty_slot:
  "snd (main Upload world_high_fd)
     = (upload_setup_at 1024 @ ExecutorPoll (Some handshake_done) # upload_request
          @ [Sys_write 1024, Sys_read 1024, ContextWaker Rd 11, ExecutorPoll None,
             Select True False, WakerWake Rd (Some 11),
             Sys_read 1024, Sys_write 1024, ContextWaker Wr 13, ExecutorPoll None,
             Select True True])
        @ WakerWake Rd None # []
   \<and> wait_phase
        \<lparr>conn = \<lparr>fd = 1024, read_waker = None, write_waker = Some 13\<rparr>, resp_body = None,
         fds_read = True, fds_write = False\<rparr>
        \<lparr>sel_ret = 1, read_ready = True, write_ready = False\<rparr>
       = (Some \<lparr>conn = \<lparr>fd = 1024, read_waker = None, write_waker = Some 13\<rparr>, resp_body = None,
                fds_read = True, fds_write = False\<rparr>,
          [Select True True, WakerWake Rd None])"
  using run_high_fd
  by (simp add: wait_phase_def select_def select_call_def build_sets_def FD_ZERO_def FD_SET_def
        FD_ISSET_def FD_SETSIZE_def)

text \<open>
  C7. When a task with one of the three tags comes back with an error, \<^verbatim>\<open>main\<close> returns 1
  there and then: after that poll the program only prints its report (and, in client.c,
  frees the error); it polls nothing, pushes nothing and builds no send task. When no
  handshake task of the run succeeded, no send task is built or pushed anywhere in the
  run. An error on a task without a tag only frees that task.
\<close>

theorem task_error_is_terminal:
  "main prog w = (out, tr) \<Longrightarrow>
     (tr = p @ ExecutorPoll (Some t) # rest \<and> payload t = OutError e
        \<and> userdata t \<noteq> EXAMPLE_NOT_SET \<longrightarrow>
        out = Exit 1 \<and> (\<forall>ev \<in> set rest. (\<exists>f a. ev = Printf f a) \<or> ev = ErrorFree e))
     \<and> ((\<forall>h. ExecutorPoll (Some h) \<in> set tr \<and> userdata h = EXAMPLE_HANDSHAKE
              \<longrightarrow> (\<exists>e'. payload h = OutError e'))
          \<longrightarrow> (\<forall>ev \<in> set tr. \<not> is_send ev))
     \<and> (payload u = OutError e \<and> userdata u = EXAMPLE_NOT_SET \<longrightarrow>
          dispatch prog w st u = (Continue st, [TaskFree (task_addr u)]))"
proof (intro conjI impI)
  assume m: "main prog w = (out, tr)"
  {
    assume a: "tr = p @ ExecutorPoll (Some t) # rest \<and> payload t = OutError e
        \<and> userdata t \<noteq> EXAMPLE_NOT_SET"
    then have r: "out = Exit 1" "rest = Printf (phase_message (userdata t)) []
                # (case prog of Client \<Rightarrow> fail (Some e) | Upload \<Rightarrow> [])"
      using main_error[OF m, of p t rest e] by auto
    show "out = Exit 1"
      by (rule r(1))
    show "\<forall>ev \<in> set rest. (\<exists>f a. ev = Printf f a) \<or> ev = ErrorFree e"
      unfolding r(2) by (cases prog) (auto simp: fail_def)
  }
  {
    assume h: "\<forall>h. ExecutorPoll (Some h) \<in> set tr \<and> userdata h = EXAMPLE_HANDSHAKE
              \<longrightarrow> (\<exists>e'. payload h = OutError e')"
    show "\<forall>ev \<in> set tr. \<not> is_send ev"
    proof
      fix ev
      assume "ev \<in> set tr"
      show "\<not> is_send ev"
      proof
        assume "is_send ev"
        then obtain k where "ExecutorPoll (Some k) \<in> set tr" "handshake_ok k"
          using main_send[OF m \<open>ev \<in> set tr\<close>] by blast
        then show False
          using h by (auto simp: handshake_ok_def)
      qed
    qed
  }
  {
    assume "payload u = OutError e \<and> userdata u = EXAMPLE_NOT_SET"
    then show "dispatch prog w st u = (Continue st, [TaskFree (task_addr u)])"
      by (cases prog) (simp_all add: client_dispatch_def upload_dispatch_def)
  }
qed

theorem task_error_is_terminal_witness:
  "main Client world_handshake_error =
     (Exit 1,
      client_setup @ ExecutorPoll (Some handshake_failed)
        # [Printf ''handshake error!\<newline>'' [],
           Printf ''error code: %d\<newline>'' [PInt 4],
           Printf ''details: %.*s\<newline>'' [PInt 7, PStr ''refused''],
           ErrorFree \<lparr>error_code = 4, error_text = ''refused''\<rparr>])
   \<and> payload handshake_failed = OutError \<lparr>error_code = 4, error_text = ''refused''\<rparr>
   \<and> userdata handshake_failed \<noteq> EXAMPLE_NOT_SET
   \<and> filter is_send (snd (main Client world_handshake_error)) = []
   \<and> dispatch Client world_handshake_error \<lparr>conn = \<lparr>fd = 4, read_waker = None, write_waker = None\<rparr>, resp_body = None,
          fds_read = False, fds_write = False\<rparr>
        \<lparr>task_addr = 8, userdata = EXAMPLE_NOT_SET,
         payload = OutError \<lparr>error_code = 4, error_text = ''refused''\<rparr>\<rparr>
       = (Continue \<lparr>conn = \<lparr>fd = 4, read_waker = None, write_waker = None\<rparr>, resp_body = None,
          fds_read = False, fds_write = False\<rparr>,
          [TaskFree 8])"
  using
    task_error_is_terminal[where prog = Client and w = world_handshake_error and out = "Exit 1"
      and tr = "snd (main Client world_handshake_error)"
      and p = client_setup and t = handshake_failed
      and rest = "[Printf ''handshake error!\<newline>'' [],
           Printf ''error code: %d\<newline>'' [PInt 4],
           Printf ''details: %.*s\<newline>'' [PInt 7, PStr ''refused''],
           ErrorFree \<lparr>error_code = 4, error_text = ''refused''\<rparr>]"
      and e = "\<lparr>error_code = 4, error_text = ''refused''\<rparr>"
      and u = "\<lparr>task_addr = 8, userdata = EXAMPLE_NOT_SET,
         payload = OutError \<lparr>error_code = 4, error_text = ''refused''\<rparr>\<rparr>"
      and st = "\<lparr>conn = \<lparr>fd = 4, read_waker = None, write_waker = None\<rparr>, resp_body = None,
          fds_read = False, fds_write = False\<rparr>"]
    run_handshake_error
  by (simp add: handshake_failed_def client_setup_def is_send_def filter_empty_conv
        client_dispatch_def)


text \<open>
  C8, as the code has it. When a task with one of the three tags comes back with an error,
  the request ends at once: \<^verbatim>\<open>main\<close> returns 1 without another poll. In client.c the
  error value taken from the task is freed exactly once before the return; upload.c
  prints the message of the phase and makes no other call.
\<close>

theorem error_exit_frees_error:
  "main prog w = (out, tr) \<Longrightarrow> tr = p @ ExecutorPoll (Some t) # rest \<Longrightarrow>
   payload t = OutError e \<Longrightarrow> userdata t \<noteq> EXAMPLE_NOT_SET \<Longrightarrow>
     out = Exit 1 \<and> filter is_poll rest = []
     \<and> (prog = Client \<longrightarrow> count_list rest (ErrorFree e) = 1)
     \<and> (prog = Upload \<longrightarrow> rest = [Printf (phase_message (userdata t)) []])"
proof -
  assume m: "main prog w = (out, tr)" and s: "tr = p @ ExecutorPoll (Some t) # rest"
    and e: "payload t = OutError e" and u: "userdata t \<noteq> EXAMPLE_NOT_SET"
  have r: "out = Exit 1" "rest = Printf (phase_message (userdata t)) []
                # (case prog of Client \<Rightarrow> fail (Some e) | Upload \<Rightarrow> [])"
    using main_error[OF m s e u] by auto
  show ?thesis
    unfolding r by (cases prog) (simp_all add: fail_def is_poll_def)
qed

theorem error_exit_frees_error_witness:
  "main Client world_handshake_error =
     (Exit 1,
      client_setup @ ExecutorPoll (Some handshake_failed)
        # [Printf ''handshake error!\<newline>'' [],
           Printf ''error code: %d\<newline>'' [PInt 4],
           Printf ''details: %.*s\<newline>'' [PInt 7, PStr ''refused''],
           ErrorFree \<lparr>error_code = 4, error_text = ''refused''\<rparr>])
   \<and> payload handshake_failed = OutError \<lparr>error_code = 4, error_text = ''refused''\<rparr>
   \<and> userdata handshake_failed \<noteq> EXAMPLE_NOT_SET
   \<and> count_list
        [Printf ''handshake error!\<newline>'' [],
         Printf ''error code: %d\<newline>'' [PInt 4],
         Printf ''details: %.*s\<newline>'' [PInt 7, PStr ''refused''],
         ErrorFree \<lparr>error_code = 4, error_text = ''refused''\<rparr>]
        (ErrorFree \<lparr>error_code = 4, error_text = ''refused''\<rparr>) = 1
   \<and> main Upload world_send_error =
       (Exit 1,
        (upload_setup @ ExecutorPoll (Some handshake_done) # upload_request
           @ [Sys_write 4, ContextWaker Wr 10, Sys_read 4, ContextWaker Rd 11, ExecutorPoll None,
              Select True True, WakerWake Rd (Some 11), Sys_read 4])
          @ ExecutorPoll (Some send_failed) # [Printf (phase_message (userdata send_failed)) []])
   \<and> payload send_failed = OutError \<lparr>error_code = 4, error_text = ''connection reset''\<rparr>
   \<and> userdata send_failed \<noteq> EXAMPLE_NOT_SET"
  using
    error_exit_frees_error[where prog = Upload and w = world_send_error and out = "Exit 1"
      and tr = "snd (main Upload world_send_error)"
      and p = "upload_setup @ ExecutorPoll (Some handshake_done) # upload_request
           @ [Sys_write 4, ContextWaker Wr 10, Sys_read 4, ContextWaker Rd 11, ExecutorPoll None,
              Select True True, WakerWake Rd (Some 11), Sys_read 4]"
      and t = send_failed and rest = "[Printf ''send error!\<newline>'' []]"
      and e = "\<lparr>error_code = 4, error_text = ''connection reset''\<rparr>"]
    run_send_error
    error_exit_frees_error[where prog = Client and w = world_handshake_error and out = "Exit 1"
      and tr = "snd (main Client world_handshake_error)"
      and p = client_setup and t = handshake_failed
      and rest = "[Printf ''handshake error!\<newline>'' [],
           Printf ''error code: %d\<newline>'' [PInt 4],
           Printf ''details: %.*s\<newline>'' [PInt 7, PStr ''refused''],
           ErrorFree \<lparr>error_code = 4, error_text = ''refused''\<rparr>]"
      and e = "\<lparr>error_code = 4, error_text = ''refused''\<rparr>"]
    run_handshake_error
  by (simp add: handshake_failed_def send_failed_def)

text \<open>
  C8 as it is stated fails: in this run of upload.c the send task fails while a write
  waker is stored. \<^verbatim>\<open>main\<close> returns 1 with that waker still live, and without a
  \<^verbatim>\<open>fluxio_task_free\<close> of the failed task, a \<^verbatim>\<open>free\<close> of the upload buffer or of the
  connection, or a \<^verbatim>\<open>fluxio_executor_free\<close>.
\<close>

theorem error_exit_keeps_resources:
  "fst (main Upload world_send_error) = Exit 1
   \<and> ledger Wr [] (snd (main Upload world_send_error)) = [10]
   \<and> count_list (snd (main Upload world_send_error)) (TaskFree (task_addr send_failed)) = 0
   \<and> count_list (snd (main Upload world_send_error)) (Call ''free'' [PStr ''upload.buf'']) = 0
   \<and> count_list (snd (main Upload world_send_error)) (Call ''free'' [PStr ''conn'']) = 0
   \<and> count_list (snd (main Upload world_send_error)) (Call ''fluxio_executor_free'' []) = 0"
  using run_send_error
  by (simp add: ledger_def upload_setup_def upload_setup_at_def upload_request_def
        send_failed_def handshake_done_def)



end
